theory Spec2Isabelle
  imports Main "HOL-Library.Word"
begin

section \<open>Bytes, hexadecimal text and strings\<close>

text \<open>
  A byte is an 8-bit word. A JavaScript string is represented by the Isabelle string of its
  UTF-8 encoding, so the empty JavaScript string is the empty list and the bytes the hasher
  absorbs for a string are the bytes of that list.
\<close>

type_synonym byte = "8 word"

definition utf8 :: "string \<Rightarrow> byte list" where
  "utf8 s = map (\<lambda>c. of_nat (of_char c)) s"

definition hex_digits :: string where
  "hex_digits = ''0123456789abcdef''"

definition hex_of_byte :: "byte \<Rightarrow> string" where
  "hex_of_byte b = [hex_digits ! (unat b div 16), hex_digits ! (unat b mod 16)]"

text \<open>\<open>buf.toString('hex')\<close> and the hasher's \<open>hex()\<close>: two lowercase digits per byte.\<close>

definition hex_encode :: "byte list \<Rightarrow> string" where
  "hex_encode bs = concat (map hex_of_byte bs)"

definition hex_value :: "char \<Rightarrow> nat option" where
  "hex_value c =
     (let n = (of_char c :: nat)
      in if 48 \<le> n \<and> n \<le> 57 then Some (n - 48)
         else if 97 \<le> n \<and> n \<le> 102 then Some (n - 87)
         else if 65 \<le> n \<and> n \<le> 70 then Some (n - 55)
         else None)"

text \<open>
  \<open>Buffer.from(s, 'hex')\<close>: the bytes that the pairs of hexadecimal digits of \<open>s\<close> denote.
  Decoding stops at the first pair that is not hexadecimal and a trailing single character
  is dropped, as the Node.js buffer does; the operations below apply it to node text.
\<close>

fun Buffer_from_hex :: "string \<Rightarrow> byte list" where
  "Buffer_from_hex (a # b # rest) =
     (case (hex_value a, hex_value b) of
        (Some x, Some y) \<Rightarrow> of_nat (16 * x + y) # Buffer_from_hex rest
      | _ \<Rightarrow> [])"
| "Buffer_from_hex _ = []"

section \<open>Keccak-256 and the streaming hasher of js-sha3\<close>

text \<open>
  Modelled from the spec: \<open>keccak256\<close> and \<open>Hasher\<close> are imported from the library js-sha3,
  which is not among the sources. The spec names the hash Keccak-256 and describes the
  hasher as an accumulator that is fed in several updates and then finalised. The hash is
  the Keccak sponge with rate 1088 bits (136 bytes), capacity 512 bits, the original Keccak
  padding byte 01 and a 32-byte digest. A lane is a list of 64 bits, least significant bit
  first; the state is 25 lanes, lane \<open>x + 5 * y\<close> holding column \<open>x\<close> of row \<open>y\<close>.
\<close>

type_synonym lane = "bool list"

fun lane_xor :: "lane \<Rightarrow> lane \<Rightarrow> lane" where
  "lane_xor (a # as) (b # bs) = (a \<noteq> b) # lane_xor as bs"
| "lane_xor _ _ = []"

fun lane_chi :: "lane \<Rightarrow> lane \<Rightarrow> lane \<Rightarrow> lane" where
  "lane_chi (a # as) (b # bs) (c # cs) = (a \<noteq> (\<not> b \<and> c)) # lane_chi as bs cs"
| "lane_chi _ _ _ = []"

definition rotl64 :: "nat \<Rightarrow> lane \<Rightarrow> lane" where
  "rotl64 n w = drop (64 - n) w @ take (64 - n) w"

fun bits_of_nat :: "nat \<Rightarrow> nat \<Rightarrow> bool list" where
  "bits_of_nat 0 n = []"
| "bits_of_nat (Suc k) n = odd n # bits_of_nat k (n div 2)"

definition lane_of_nat :: "nat \<Rightarrow> lane" where
  "lane_of_nat n = bits_of_nat 64 n"

definition round_constants :: "lane list" where
  "round_constants = map lane_of_nat
    [0x0000000000000001, 0x0000000000008082, 0x800000000000808A, 0x8000000080008000,
     0x000000000000808B, 0x0000000080000001, 0x8000000080008081, 0x8000000000008009,
     0x000000000000008A, 0x0000000000000088, 0x0000000080008009, 0x000000008000000A,
     0x000000008000808B, 0x800000000000008B, 0x8000000000008089, 0x8000000000008003,
     0x8000000000008002, 0x8000000000000080, 0x000000000000800A, 0x800000008000000A,
     0x8000000080008081, 0x8000000000008080, 0x0000000080000001, 0x8000000080008008]"

definition rotation_offsets :: "nat list" where
  "rotation_offsets =
    [0, 1, 62, 28, 27, 36, 44, 6, 55, 20, 3, 10, 43, 25, 39, 41, 45, 15, 21, 8, 18, 2, 61, 56, 14]"

definition pi_index :: "nat list" where
  "pi_index =
    [0, 6, 12, 18, 24, 3, 9, 10, 16, 22, 1, 7, 13, 19, 20, 4, 5, 11, 17, 23, 2, 8, 14, 15, 21]"

definition theta_c :: "lane list \<Rightarrow> lane list" where
  "theta_c a = map (\<lambda>x. lane_xor (a ! x) (lane_xor (a ! (x + 5)) (lane_xor (a ! (x + 10))
                        (lane_xor (a ! (x + 15)) (a ! (x + 20)))))) [0..<5]"

definition theta_d :: "lane list \<Rightarrow> lane list" where
  "theta_d c = map (\<lambda>x. lane_xor (c ! ((x + 4) mod 5)) (rotl64 1 (c ! ((x + 1) mod 5)))) [0..<5]"

definition theta_apply :: "lane list \<Rightarrow> lane list \<Rightarrow> lane list" where
  "theta_apply d a = map (\<lambda>i. lane_xor (a ! i) (d ! (i mod 5))) [0..<25]"

definition theta :: "lane list \<Rightarrow> lane list" where
  "theta a = theta_apply (theta_d (theta_c a)) a"

text \<open>Rho and pi together: output lane \<open>j\<close> is input lane \<open>pi_index ! j\<close>, rotated.\<close>

definition rho_pi :: "lane list \<Rightarrow> lane list" where
  "rho_pi a = map (\<lambda>i. rotl64 (rotation_offsets ! i) (a ! i)) pi_index"

fun chi_row :: "lane list \<Rightarrow> lane list" where
  "chi_row [b0, b1, b2, b3, b4] =
     [lane_chi b0 b1 b2, lane_chi b1 b2 b3, lane_chi b2 b3 b4, lane_chi b3 b4 b0, lane_chi b4 b0 b1]"
| "chi_row _ = []"

fun chi :: "lane list \<Rightarrow> lane list" where
  "chi (b0 # b1 # b2 # b3 # b4 # bs) = chi_row [b0, b1, b2, b3, b4] @ chi bs"
| "chi _ = []"

definition iota :: "lane \<Rightarrow> lane list \<Rightarrow> lane list" where
  "iota rc a = (case a of [] \<Rightarrow> [] | a0 # as \<Rightarrow> lane_xor a0 rc # as)"

definition keccak_round :: "lane list \<Rightarrow> lane \<Rightarrow> lane list" where
  "keccak_round a rc = iota rc (chi (rho_pi (theta a)))"

definition keccak_f :: "lane list \<Rightarrow> lane list" where
  "keccak_f a = foldl keccak_round a round_constants"

definition bits_of_byte :: "byte \<Rightarrow> bool list" where
  "bits_of_byte b = bits_of_nat 8 (unat b)"

definition byte_of_bits :: "bool list \<Rightarrow> byte" where
  "byte_of_bits bs = foldr (\<lambda>b w. of_bool b + 2 * w) bs 0"

fun chunks :: "nat \<Rightarrow> 'a list \<Rightarrow> 'a list list" where
  "chunks n [] = []"
| "chunks n (x # xs) = take (Suc (n - 1)) (x # xs) # chunks n (drop (n - 1) xs)"

definition rate :: nat where
  "rate = 136"

definition padding :: "nat \<Rightarrow> byte list" where
  "padding len =
     (let k = rate - len mod rate
      in if k = 1 then [0x81] else [0x01] @ replicate (k - 2) 0 @ [0x80])"

definition pad :: "byte list \<Rightarrow> byte list" where
  "pad m = m @ padding (length m)"

definition initial_state :: "lane list" where
  "initial_state = replicate 25 (replicate 64 False)"

definition lanes_of_block :: "byte list \<Rightarrow> lane list" where
  "lanes_of_block block = chunks 64 (concat (map bits_of_byte block))"

text \<open>One block of 136 bytes is xored into the first 17 lanes, then the state is permuted.\<close>

definition absorb :: "lane list \<Rightarrow> byte list \<Rightarrow> lane list" where
  "absorb s block =
     keccak_f (map2 lane_xor s (lanes_of_block block @ replicate 8 (replicate 64 False)))"

definition squeeze :: "lane list \<Rightarrow> byte list" where
  "squeeze s = map byte_of_bits (chunks 8 (concat (take 4 s)))"

text \<open>The hash of a whole message: pad, absorb block by block, squeeze 32 bytes.\<close>

definition keccak256 :: "byte list \<Rightarrow> byte list" where
  "keccak256 m = squeeze (foldl absorb initial_state (chunks rate (pad m)))"

text \<open>
  The \<open>Hasher\<close> object: \<open>create()\<close> gives an empty accumulator, \<open>update\<close> absorbs every
  complete block as soon as it is available and keeps the rest pending, \<open>digest()\<close> pads
  and absorbs the pending bytes and squeezes, \<open>hex()\<close> is the digest as hexadecimal text.
\<close>

record Hasher =
  lanes :: "lane list"
  pending :: "byte list"

definition create :: Hasher where
  "create = \<lparr>lanes = initial_state, pending = []\<rparr>"

function feed :: "lane list \<Rightarrow> byte list \<Rightarrow> lane list \<times> byte list" where
  "feed s buf =
     (if rate \<le> length buf then feed (absorb s (take rate buf)) (drop rate buf) else (s, buf))"
  by pat_completeness auto
termination
  by (relation "measure (\<lambda>(s, buf). length buf)") (auto simp: rate_def)

definition update :: "Hasher \<Rightarrow> byte list \<Rightarrow> Hasher" where
  "update h m = (case feed (lanes h) (pending h @ m) of (s, r) \<Rightarrow> \<lparr>lanes = s, pending = r\<rparr>)"

definition digest :: "Hasher \<Rightarrow> byte list" where
  "digest h = squeeze (absorb (lanes h) (pad (pending h)))"

definition hex :: "Hasher \<Rightarrow> string" where
  "hex h = hex_encode (digest h)"

section \<open>Node derivation\<close>

record parseDomain_params =
  domain :: string
  subDomain :: "string option"

text \<open>
  \<open>if (params.subDomain)\<close> tests the truthiness of an optional string: \<open>undefined\<close>
  (\<open>None\<close>) and the empty string are falsy, every other string is truthy.
\<close>

definition parseDomain :: "parseDomain_params \<Rightarrow> string" where
  "parseDomain params =
     (let record = update (update create (digest (update create (utf8 ''xlm''))))
                          (digest (update create (utf8 (domain params))))
      in case subDomain params of
           None \<Rightarrow> hex record
         | Some s \<Rightarrow>
             if s \<noteq> [] then
               let subRecord = update (update create (digest (update create (digest record))))
                                      (digest (update create (utf8 s)))
               in hex subRecord
             else hex record)"


section \<open>JavaScript values and errors\<close>

text \<open>
  The values \<open>scValToNative\<close> hands back and the payloads of storage values. The decoder
  turns the 32-bit contract integers into numbers and the wider ones into bigints, so a
  number here is an integer; \<open>JNumber\<close> holds it in 54 bits, two's complement, which is the
  range from \<open>-2^53\<close> to \<open>2^53 - 1\<close> where a JavaScript number is exact and is printed without
  an exponent. A \<open>JObject\<close> lists the own properties of a decoded map.
\<close>

datatype jsval =
    JUndefined
  | JNull
  | JBool bool
  | JNumber "54 word"
  | JBigInt int
  | JString string
  | JBuffer "byte list"
  | JArray "jsval list"
  | JObject "(string \<times> jsval) list"

text \<open>
  What an operation can throw. \<open>Error\<close> carries its message; \<open>TypeError\<close> and \<open>RangeError\<close>
  are the language's own. Modelled from the spec: the classes \<open>Domain404Error\<close>,
  \<open>DomainData404Error\<close> and \<open>DomainDataUnsupportedValueType\<close> are declared in \<open>errors.ts\<close>,
  which is not among the sources; the spec calls them DomainNotFound, DomainDataNotFound
  and UnsupportedValueType.
\<close>

datatype error =
    Error string
  | TypeError
  | RangeError
  | Domain404Error
  | DomainData404Error
  | DomainDataUnsupportedValueType

text \<open>\<open>!v\<close> is \<open>\<not> truthy v\<close>.\<close>

fun truthy :: "jsval \<Rightarrow> bool" where
  "truthy JUndefined = False"
| "truthy JNull = False"
| "truthy (JBool b) = b"
| "truthy (JNumber n) = (n \<noteq> 0)"
| "truthy (JBigInt n) = (n \<noteq> 0)"
| "truthy (JString s) = (s \<noteq> [])"
| "truthy (JBuffer bs) = True"
| "truthy (JArray xs) = True"
| "truthy (JObject kvs) = True"

definition truthy_string :: "string option \<Rightarrow> bool" where
  "truthy_string s = (case s of None \<Rightarrow> False | Some t \<Rightarrow> t \<noteq> [])"

definition and_then :: "error + 'a \<Rightarrow> ('a \<Rightarrow> error + 'b) \<Rightarrow> error + 'b" where
  "and_then m f = (case m of Inl e \<Rightarrow> Inl e | Inr x \<Rightarrow> f x)"

text \<open>The decimal digits of an integer, as \<open>toString()\<close> renders a bigint or an integral number.\<close>

definition dec_digits :: string where
  "dec_digits = ''0123456789''"

function dec_nat :: "nat \<Rightarrow> string" where
  "dec_nat n =
     (if n < 10 then [dec_digits ! n] else dec_nat (n div 10) @ [dec_digits ! (n mod 10)])"
  by pat_completeness auto
termination
  by (relation "measure (\<lambda>n. n)") auto

definition dec_int :: "int \<Rightarrow> string" where
  "dec_int i = (if i < 0 then CHR ''-'' # dec_nat (nat (- i)) else dec_nat (nat i))"

fun intersperse :: "string \<Rightarrow> string list \<Rightarrow> string" where
  "intersperse sep [] = []"
| "intersperse sep [x] = x"
| "intersperse sep (x # y # ys) = x @ sep @ intersperse sep (y # ys)"

text \<open>
  \<open>String(v)\<close>, as \<open>Array.prototype.join\<close> applies it to the elements of an array: \<open>null\<close>
  and \<open>undefined\<close> elements give the empty string. A buffer gives its bytes read as UTF-8;
  the text an ill-formed byte sequence gives depends on the buffer implementation in use,
  so the reading \<open>utf8Slice\<close> is a parameter, supplied with the SDK below.
\<close>

fun js_String :: "(byte list \<Rightarrow> string) \<Rightarrow> jsval \<Rightarrow> string" where
  "js_String utf8Slice JUndefined = ''undefined''"
| "js_String utf8Slice JNull = ''null''"
| "js_String utf8Slice (JBool b) = (if b then ''true'' else ''false'')"
| "js_String utf8Slice (JNumber n) = dec_int (sint n)"
| "js_String utf8Slice (JBigInt n) = dec_int n"
| "js_String utf8Slice (JString s) = s"
| "js_String utf8Slice (JBuffer bs) = utf8Slice bs"
| "js_String utf8Slice (JArray xs) =
     intersperse '',''
       (map (\<lambda>x. if x = JUndefined \<or> x = JNull then [] else js_String utf8Slice x) xs)"
| "js_String utf8Slice (JObject kvs) = ''[object Object]''"

text \<open>\<open>v.toString()\<close>: a method call, so it throws on \<open>null\<close> and \<open>undefined\<close>.\<close>

definition toString :: "(byte list \<Rightarrow> string) \<Rightarrow> jsval \<Rightarrow> error + string" where
  "toString utf8Slice v =
     (if v = JUndefined \<or> v = JNull then Inl TypeError else Inr (js_String utf8Slice v))"

text \<open>The integer a bigint or a number holds.\<close>

definition integer_of :: "jsval \<Rightarrow> int option" where
  "integer_of v = (case v of JBigInt i \<Rightarrow> Some i | JNumber n \<Rightarrow> Some (sint n) | _ \<Rightarrow> None)"

text \<open>
  \<open>v.toString('hex')\<close>: a buffer is rendered in hexadecimal; for a number or a bigint the
  argument is a radix and \<open>'hex'\<close> is out of range; the other kinds ignore the argument.
\<close>

definition toString_hex :: "(byte list \<Rightarrow> string) \<Rightarrow> jsval \<Rightarrow> error + string" where
  "toString_hex utf8Slice v =
     (case v of
        JUndefined \<Rightarrow> Inl TypeError
      | JNull \<Rightarrow> Inl TypeError
      | JNumber n \<Rightarrow> Inl RangeError
      | JBigInt n \<Rightarrow> Inl RangeError
      | JBuffer bs \<Rightarrow> Inr (hex_encode bs)
      | _ \<Rightarrow> Inr (js_String utf8Slice v))"

text \<open>\<open>v[i]\<close> for an index \<open>i\<close>.\<close>

definition js_index :: "jsval \<Rightarrow> nat \<Rightarrow> error + jsval" where
  "js_index v i =
     (case v of
        JUndefined \<Rightarrow> Inl TypeError
      | JNull \<Rightarrow> Inl TypeError
      | JArray xs \<Rightarrow> Inr (if i < length xs then xs ! i else JUndefined)
      | JString s \<Rightarrow> Inr (if i < length s then JString [s ! i] else JUndefined)
      | JBuffer bs \<Rightarrow> Inr (if i < length bs then JNumber (ucast (bs ! i)) else JUndefined)
      | JObject kvs \<Rightarrow> Inr (case map_of kvs (dec_nat i) of None \<Rightarrow> JUndefined | Some x \<Rightarrow> x)
      | _ \<Rightarrow> Inr JUndefined)"

text \<open>
  \<open>v.k\<close> for one of the field names the source reads. Only the own properties of a decoded
  map answer; every other kind of value has no such field.
\<close>

definition js_get :: "jsval \<Rightarrow> string \<Rightarrow> error + jsval" where
  "js_get v k =
     (case v of
        JUndefined \<Rightarrow> Inl TypeError
      | JNull \<Rightarrow> Inl TypeError
      | JObject kvs \<Rightarrow> Inr (case map_of kvs k of None \<Rightarrow> JUndefined | Some x \<Rightarrow> x)
      | _ \<Rightarrow> Inr JUndefined)"

section \<open>The ledger SDK, the RPC server and the configuration\<close>

text \<open>
  An \<open>xdr.ScVal\<close> built by the source: the constructors \<open>scvBytes\<close>, \<open>scvSymbol\<close>,
  \<open>scvString\<close> and \<open>scvVec\<close> store what they are given. \<open>ScvArm\<close> stands for every other
  arm, by name; values of these arms come from the SDK and the server only.
\<close>

datatype scval =
    ScvBytes jsval
  | ScvSymbol jsval
  | ScvString jsval
  | ScvVec "scval list"
  | ScvArm string jsval

datatype account = Account string int

datatype contract = Contract string

text \<open>\<open>contract.call(method, ...args)\<close>.\<close>

datatype operation = Call contract string "scval list"

text \<open>
  \<open>new TransactionBuilder(account, {networkPassphrase, fee}).setTimeout(t).addOperation(op).build()\<close>
  is the transaction with these five parts.
\<close>

record transaction =
  tx_source :: account
  tx_networkPassphrase :: string
  tx_fee :: string
  tx_timeout :: nat
  tx_operations :: "operation list"

text \<open>
  The simulation response of the ledger SDK: an error response carries the field \<open>error\<close>,
  and \<open>isSimulationError\<close> recognises it by that field; a success or restore response
  carries \<open>result\<close>, which may be missing, with its \<open>retval\<close>.
\<close>

datatype sim_response =
    SimulationError string
  | SimulationSuccess "scval option"
  | SimulationRestore "scval option"

fun isSimulationError :: "sim_response \<Rightarrow> bool" where
  "isSimulationError (SimulationError msg) = True"
| "isSimulationError _ = False"

text \<open>\<open>sim.error\<close>.\<close>

fun sim_error :: "sim_response \<Rightarrow> string" where
  "sim_error (SimulationError msg) = msg"
| "sim_error _ = []"

text \<open>\<open>sim.result!.retval\<close>: reading \<open>retval\<close> of a missing result throws.\<close>

fun result_retval :: "sim_response \<Rightarrow> error + scval" where
  "result_retval (SimulationSuccess (Some v)) = Inr v"
| "result_retval (SimulationRestore (Some v)) = Inr v"
| "result_retval _ = Inl TypeError"

text \<open>
  The functions of the injected SDK module whose results the source only passes on. They are
  parameters of the model: \<open>new Contract(id)\<close> and \<open>nativeToScVal\<close> may throw,
  \<open>assembleTransaction(tx, sim).build()\<close> may throw. \<open>Buffer_toString\<close> is \<open>buf.toString()\<close> of
  the buffers that \<open>scValToNative\<close> returns.
\<close>

record stellarSDK =
  new_Contract :: "string \<Rightarrow> error + contract"
  scValToNative :: "scval \<Rightarrow> jsval"
  Buffer_toString :: "byte list \<Rightarrow> string"
  nativeToScVal :: "jsval \<Rightarrow> string \<Rightarrow> error + scval"
  assembleTransaction :: "transaction \<Rightarrow> sim_response \<Rightarrow> error + transaction"

text \<open>The RPC server: both calls are promises that may reject.\<close>

record Server =
  getAccount :: "string \<Rightarrow> error + account"
  simulateTransaction :: "transaction \<Rightarrow> error + sim_response"

text \<open>
  Modelled from the spec: \<open>SorobanDomainsSDKParams\<close> is declared in \<open>types.ts\<close>, which is not
  among the sources; the spec lists its options, the two contract identifiers and the
  default timeout being optional.
\<close>

record SorobanDomainsSDKParams =
  stellarSDK :: stellarSDK
  rpc :: Server
  network :: string
  vaultsContractId :: "string option"
  valuesDatabaseContractId :: "string option"
  defaultFee :: string
  defaultTimeout :: "nat option"
  simulationAccount :: string

text \<open>
  An asynchronous operation is modelled by the list of RPC calls it has made, in order,
  together with its outcome: \<open>Inl\<close> for a rejection, \<open>Inr\<close> for the resolved value.
\<close>

datatype rpc_call = GetAccount string | SimulateTransaction transaction

type_synonym 'a promise = "rpc_call list \<times> (error + 'a)"

abbreviation rpc_calls :: "'a promise \<Rightarrow> rpc_call list" where
  "rpc_calls p \<equiv> fst p"

abbreviation outcome :: "'a promise \<Rightarrow> error + 'a" where
  "outcome p \<equiv> snd p"

text \<open>\<open>this.global.defaultTimeout || 0\<close>.\<close>

definition timeout_or_zero :: "nat option \<Rightarrow> nat" where
  "timeout_or_zero t = (case t of None \<Rightarrow> 0 | Some n \<Rightarrow> if n \<noteq> 0 then n else 0)"

definition build_transaction :: "SorobanDomainsSDKParams \<Rightarrow> account \<Rightarrow> operation \<Rightarrow> transaction" where
  "build_transaction global acc op =
     \<lparr>tx_source = acc, tx_networkPassphrase = network global, tx_fee = defaultFee global,
      tx_timeout = timeout_or_zero (defaultTimeout global), tx_operations = [op]\<rparr>"

section \<open>Record lookup\<close>

text \<open>
  Modelled from the spec: the enumeration \<open>RecordKey\<close> is declared in \<open>types.ts\<close>, which is
  not among the sources; the spec gives it exactly the two symbols \<open>Record\<close> and \<open>SubRecord\<close>.
\<close>

datatype RecordKey = Record | SubRecord

fun RecordKey_symbol :: "RecordKey \<Rightarrow> string" where
  "RecordKey_symbol Record = ''Record''"
| "RecordKey_symbol SubRecord = ''SubRecord''"

text \<open>
  Modelled from the spec: \<open>Record\<close>, \<open>Domain\<close>, \<open>SubDomain\<close> and \<open>RecordType\<close> are declared in
  \<open>types.ts\<close>, which is not among the sources.
  The value \<open>searchDomain\<close> resolves to is \<open>{type: RecordType.Domain, value: {...}}\<close> with
  the fields \<open>node\<close>, \<open>owner\<close>, \<open>address\<close>, \<open>exp_date\<close>, \<open>snapshot\<close>, \<open>collateral\<close>, or
  \<open>{type: RecordType.SubDomain, value: {...}}\<close> with the fields \<open>node\<close>, \<open>parent\<close>, \<open>address\<close>,
  \<open>snapshot\<close>, in this order. The field \<open>address\<close> is handed on as decoded.
\<close>

datatype Record =
    Domain string string jsval string string string
  | SubDomain string string jsval string

text \<open>Lines 49 to 52 of \<open>sdk.ts\<close>: the argument of the contract's \<open>record\<close> entry point.\<close>

definition record_key :: "parseDomain_params \<Rightarrow> scval" where
  "record_key params =
     (let domainNode = parseDomain \<lparr>domain = domain params, subDomain = subDomain params\<rparr>;
          nodeBytes = ScvBytes (JBuffer (Buffer_from_hex domainNode))
      in ScvVec [ScvSymbol (JString (RecordKey_symbol
                   (if truthy_string (subDomain params) then SubRecord else Record))),
                 nodeBytes])"

text \<open>
  The three ways lines 76 to 98 read a field of the decoded value: \<open>result[1].k\<close>,
  \<open>result[1].k.toString('hex')\<close> and \<open>result[1].k.toString()\<close>.
\<close>

definition field_raw :: "jsval \<Rightarrow> string \<Rightarrow> error + jsval" where
  "field_raw result k = and_then (js_index result 1) (\<lambda>r. js_get r k)"

definition field_hex :: "(byte list \<Rightarrow> string) \<Rightarrow> jsval \<Rightarrow> string \<Rightarrow> error + string" where
  "field_hex utf8Slice result k = and_then (field_raw result k) (toString_hex utf8Slice)"

definition field_dec :: "(byte list \<Rightarrow> string) \<Rightarrow> jsval \<Rightarrow> string \<Rightarrow> error + string" where
  "field_dec utf8Slice result k = and_then (field_raw result k) (toString utf8Slice)"

text \<open>
  Lines 72 to 98: from the decoded return value to the record. The fields of the object
  literal are evaluated in the order they are written, so the first one that throws decides
  the error.
\<close>

definition record_of_result :: "(byte list \<Rightarrow> string) \<Rightarrow> jsval \<Rightarrow> error + Record" where
  "record_of_result utf8Slice result =
     (if \<not> truthy result then Inl Domain404Error
      else
        and_then (js_index result 0) (\<lambda>tag.
        if tag = JString ''Domain'' then
          and_then (field_hex utf8Slice result ''node'') (\<lambda>node'.
          and_then (field_hex utf8Slice result ''owner'') (\<lambda>owner'.
          and_then (field_raw result ''address'') (\<lambda>address'.
          and_then (field_dec utf8Slice result ''exp_date'') (\<lambda>exp_date'.
          and_then (field_dec utf8Slice result ''snapshot'') (\<lambda>snapshot'.
          and_then (field_dec utf8Slice result ''collateral'') (\<lambda>collateral'.
          Inr (Domain node' owner' address' exp_date' snapshot' collateral')))))))
        else
          and_then (field_hex utf8Slice result ''node'') (\<lambda>node'.
          and_then (field_hex utf8Slice result ''parent'') (\<lambda>parent'.
          and_then (field_raw result ''address'') (\<lambda>address'.
          and_then (field_dec utf8Slice result ''snapshot'') (\<lambda>snapshot'.
          Inr (SubDomain node' parent' address' snapshot')))))))"

definition searchDomain :: "SorobanDomainsSDKParams \<Rightarrow> parseDomain_params \<Rightarrow> Record promise" where
  "searchDomain global params =
     (case vaultsContractId global of
        None \<Rightarrow> ([], Inl (Error ''Vault's contract id was not provided''))
      | Some vaults \<Rightarrow>
          if vaults = [] then ([], Inl (Error ''Vault's contract id was not provided''))
          else
            (case new_Contract (stellarSDK global) vaults of
              Inl e \<Rightarrow> ([], Inl e)
            | Inr contract \<Rightarrow>
                (case getAccount (rpc global) (simulationAccount global) of
                  Inl e \<Rightarrow> ([GetAccount (simulationAccount global)], Inl e)
                | Inr account \<Rightarrow>
                    let transaction = build_transaction global account
                                        (Call contract ''record'' [record_key params]);
                        calls = [GetAccount (simulationAccount global), SimulateTransaction transaction]
                    in (case simulateTransaction (rpc global) transaction of
                         Inl e \<Rightarrow> (calls, Inl e)
                       | Inr sim \<Rightarrow>
                           if isSimulationError sim
                           then (calls, Inl (Error (sim_error sim)))
                           else (calls, and_then (result_retval sim) (\<lambda>retval.
                                          record_of_result (Buffer_toString (stellarSDK global))
                                            (scValToNative (stellarSDK global) retval)))))))"

section \<open>Key/value storage\<close>

definition getDomainData :: "SorobanDomainsSDKParams \<Rightarrow> string \<Rightarrow> string \<Rightarrow> jsval promise" where
  "getDomainData global node key =
     (case valuesDatabaseContractId global of
        None \<Rightarrow> ([], Inl (Error ''KeyValue Database contract id was not provided''))
      | Some db \<Rightarrow>
          if db = [] then ([], Inl (Error ''KeyValue Database contract id was not provided''))
          else
            (case new_Contract (stellarSDK global) db of
              Inl e \<Rightarrow> ([], Inl e)
            | Inr contract \<Rightarrow>
                let nodeBytes = ScvBytes (JBuffer (Buffer_from_hex node));
                    keySymbol = ScvSymbol (JString key)
                in (case getAccount (rpc global) (simulationAccount global) of
                     Inl e \<Rightarrow> ([GetAccount (simulationAccount global)], Inl e)
                   | Inr account \<Rightarrow>
                       let transaction = build_transaction global account
                                           (Call contract ''get'' [nodeBytes, keySymbol]);
                           calls = [GetAccount (simulationAccount global),
                                    SimulateTransaction transaction]
                       in (case simulateTransaction (rpc global) transaction of
                            Inl e \<Rightarrow> (calls, Inl e)
                          | Inr sim \<Rightarrow>
                              if isSimulationError sim
                              then (calls, Inl (Error (sim_error sim)))
                              else (calls, and_then (result_retval sim) (\<lambda>retval.
                                     let result = scValToNative (stellarSDK global) retval
                                     in if \<not> truthy result then Inl DomainData404Error
                                        else Inr result))))))"

text \<open>
  Modelled from the spec: \<open>DomainStorageValue\<close> is declared in \<open>types.ts\<close>, which is not among
  the sources; the spec describes a value tagged by a discriminant string. A storage value
  \<open>params.value\<close> is the pair of its discriminant \<open>params.value[0]\<close> and its payload
  \<open>params.value[1]\<close>.
\<close>

type_synonym DomainStorageValue = "string \<times> jsval"

text \<open>Lines 148 to 172 of \<open>sdk.ts\<close>: the \<open>switch\<close> on the discriminant.\<close>

definition encode_value :: "stellarSDK \<Rightarrow> DomainStorageValue \<Rightarrow> error + scval" where
  "encode_value sdk v =
     (if fst v = ''Bytes'' then
        Inr (ScvVec [ScvSymbol (JString ''Bytes''), ScvBytes (snd v)])
      else if fst v = ''Number'' then
        and_then (nativeToScVal sdk (snd v) ''i128'') (\<lambda>n.
          Inr (ScvVec [ScvSymbol (JString ''Number''), n]))
      else if fst v = ''String'' then
        Inr (ScvVec [ScvSymbol (JString ''String''), ScvString (snd v)])
      else Inl DomainDataUnsupportedValueType)"

definition setDomainData ::
  "SorobanDomainsSDKParams \<Rightarrow> string \<Rightarrow> string \<Rightarrow> DomainStorageValue \<Rightarrow> string
     \<Rightarrow> (transaction \<times> sim_response) promise" where
  "setDomainData global node key val source =
     (case valuesDatabaseContractId global of
        None \<Rightarrow> ([], Inl (Error ''KeyValue Database contract id was not provided''))
      | Some db \<Rightarrow>
          if db = [] then ([], Inl (Error ''KeyValue Database contract id was not provided''))
          else
            (case new_Contract (stellarSDK global) db of
              Inl e \<Rightarrow> ([], Inl e)
            | Inr contract \<Rightarrow>
                let nodeBytes = ScvBytes (JBuffer (Buffer_from_hex node));
                    keySymbol = ScvSymbol (JString key)
                in (case encode_value (stellarSDK global) val of
                     Inl e \<Rightarrow> ([], Inl e)
                   | Inr v \<Rightarrow>
                       (case getAccount (rpc global) source of
                         Inl e \<Rightarrow> ([GetAccount source], Inl e)
                       | Inr account \<Rightarrow>
                           let transaction = build_transaction global account
                                               (Call contract ''set'' [nodeBytes, keySymbol, v]);
                               calls = [GetAccount source, SimulateTransaction transaction]
                           in (case simulateTransaction (rpc global) transaction of
                                Inl e \<Rightarrow> (calls, Inl e)
                              | Inr sim \<Rightarrow>
                                  if isSimulationError sim
                                  then (calls, Inl (Error (sim_error sim)))
                                  else (calls,
                                        and_then (assembleTransaction (stellarSDK global) transaction sim)
                                          (\<lambda>tx. Inr (tx, sim))))))))"

definition removeDomainData ::
  "SorobanDomainsSDKParams \<Rightarrow> string \<Rightarrow> string \<Rightarrow> string
     \<Rightarrow> (transaction \<times> sim_response) promise" where
  "removeDomainData global node key source =
     (case valuesDatabaseContractId global of
        None \<Rightarrow> ([], Inl (Error ''KeyValue Database contract id was not provided''))
      | Some db \<Rightarrow>
          if db = [] then ([], Inl (Error ''KeyValue Database contract id was not provided''))
          else
            (case new_Contract (stellarSDK global) db of
              Inl e \<Rightarrow> ([], Inl e)
            | Inr contract \<Rightarrow>
                let nodeBytes = ScvBytes (JBuffer (Buffer_from_hex node));
                    keySymbol = ScvSymbol (JString key)
                in (case getAccount (rpc global) source of
                         Inl e \<Rightarrow> ([GetAccount source], Inl e)
                       | Inr account \<Rightarrow>
                           let transaction = build_transaction global account
                                               (Call contract ''remove'' [nodeBytes, keySymbol]);
                               calls = [GetAccount source, SimulateTransaction transaction]
                           in (case simulateTransaction (rpc global) transaction of
                                Inl e \<Rightarrow> (calls, Inl e)
                              | Inr sim \<Rightarrow>
                                  if isSimulationError sim
                                  then (calls, Inl (Error (sim_error sim)))
                                  else (calls,
                                        and_then (assembleTransaction (stellarSDK global) transaction sim)
                                          (\<lambda>tx. Inr (tx, sim)))))))"

section \<open>Sample configurations\<close>

text \<open>
  A configuration whose SDK accepts every contract identifier, decodes every return value
  to the given \<open>decoded\<close> and reads a buffer as the string whose UTF-8 encoding it is (what
  \<open>buf.toString()\<close> gives on well-formed UTF-8), and whose server knows every account and
  answers every simulation with the given response.
\<close>

definition sample_sdk :: "jsval \<Rightarrow> stellarSDK" where
  "sample_sdk decoded =
     \<lparr>new_Contract = (\<lambda>id. Inr (Contract id)),
      scValToNative = (\<lambda>v. decoded),
      Buffer_toString = (\<lambda>bs. map (\<lambda>b. char_of (unat b)) bs),
      nativeToScVal = (\<lambda>v t. Inr (ScvArm t v)),
      assembleTransaction = (\<lambda>tx sim. Inr tx)\<rparr>"

definition sample_rpc :: "sim_response \<Rightarrow> Server" where
  "sample_rpc sim =
     \<lparr>getAccount = (\<lambda>id. Inr (Account id 0)),
      simulateTransaction = (\<lambda>tx. Inr sim)\<rparr>"

definition sample_global ::
  "string option \<Rightarrow> string option \<Rightarrow> jsval \<Rightarrow> sim_response \<Rightarrow> SorobanDomainsSDKParams" where
  "sample_global vaults db decoded sim =
     \<lparr>stellarSDK = sample_sdk decoded, rpc = sample_rpc sim, network = ''Test SDF Network'',
      vaultsContractId = vaults, valuesDatabaseContractId = db, defaultFee = ''100'',
      defaultTimeout = None, simulationAccount = ''GSIM''\<rparr>"

definition sample_transaction :: "string \<Rightarrow> string \<Rightarrow> string \<Rightarrow> scval list \<Rightarrow> transaction" where
  "sample_transaction acc contract_id method args =
     \<lparr>tx_source = Account acc 0, tx_networkPassphrase = ''Test SDF Network'', tx_fee = ''100'',
      tx_timeout = 0, tx_operations = [Call (Contract contract_id) method args]\<rparr>"

section \<open>Facts about hexadecimal text\<close>

lemma length_hex_digits: "length hex_digits = 16"
  by (simp add: hex_digits_def)

lemma hex_digit_in: "k < 16 \<Longrightarrow> hex_digits ! k \<in> set hex_digits"
  using nth_mem [of k hex_digits] by (simp add: length_hex_digits)

lemma high_nibble_less: "unat (b :: byte) div 16 < 16"
  using unsigned_less [of b] by (simp add: div_less_iff_less_mult)

lemma set_hex_encode: "set (hex_encode bs) \<subseteq> set hex_digits"
proof -
  have "set (hex_of_byte b) \<subseteq> set hex_digits" for b
    by (simp add: hex_of_byte_def hex_digit_in high_nibble_less)
  then show ?thesis by (auto simp: hex_encode_def)
qed

lemma length_hex_encode: "length (hex_encode bs) = 2 * length bs"
  by (induction bs) (simp_all add: hex_encode_def hex_of_byte_def)

lemma hex_value_digit: "k < 16 \<Longrightarrow> hex_value (hex_digits ! k) = Some k"
proof -
  assume k: "k < 16"
  have "list_all (\<lambda>k. hex_value (hex_digits ! k) = Some k) [0..<16]"
    by (simp add: upt_rec [of _ "numeral n" for n] upt_rec [of 0] hex_value_def hex_digits_def)
  with k show ?thesis by (simp add: list_all_iff)
qed

text \<open>Decoding the hexadecimal text of a byte sequence gives the bytes back.\<close>

lemma Buffer_from_hex_encode: "Buffer_from_hex (hex_encode bs) = bs"
proof (induction bs)
  case Nil
  show ?case by (simp add: hex_encode_def)
next
  case (Cons b bs)
  have m: "unat b mod 16 < 16" by simp
  have e: "hex_encode (b # bs)
           = hex_digits ! (unat b div 16) # hex_digits ! (unat b mod 16) # hex_encode bs"
    by (simp add: hex_encode_def hex_of_byte_def)
  have w: "(of_nat (16 * (unat b div 16) + unat b mod 16) :: byte) = b"
    by simp
  show ?case unfolding e using Cons w
    by (simp only: Buffer_from_hex.simps hex_value_digit [OF high_nibble_less]
                   hex_value_digit [OF m] prod.case option.case)
qed

lemma hex_encode_inj: "hex_encode a = hex_encode b \<Longrightarrow> a = b"
proof -
  assume "hex_encode a = hex_encode b"
  then have "Buffer_from_hex (hex_encode a) = Buffer_from_hex (hex_encode b)"
    by (rule arg_cong)
  then show "a = b" by (simp only: Buffer_from_hex_encode)
qed

section \<open>The streaming hasher computes the hash of the concatenation\<close>

declare feed.simps [simp del]

lemma chunks_step: "0 < n \<Longrightarrow> xs \<noteq> [] \<Longrightarrow> chunks n xs = take n xs # chunks n (drop n xs)"
  by (cases xs; cases n) simp_all

lemma chunks_single: "0 < n \<Longrightarrow> length xs = n \<Longrightarrow> chunks n xs = [xs]"
  by (cases xs) (simp_all add: chunks_step)

lemma length_padding: "length (padding len) = rate - len mod rate"
proof -
  have "len mod rate < rate" by (simp add: rate_def)
  then show ?thesis by (auto simp: padding_def Let_def)
qed

lemma length_pad_short: "length m < rate \<Longrightarrow> length (pad m) = rate"
  by (simp add: pad_def length_padding)

lemma pad_split: "rate \<le> length m \<Longrightarrow> pad m = take rate m @ pad (drop rate m)"
proof -
  assume le: "rate \<le> length m"
  then have "(length m - rate) mod rate = length m mod rate"
    by (simp add: le_mod_geq)
  then have "padding (length (drop rate m)) = padding (length m)"
    by (simp add: padding_def)
  then show ?thesis by (simp add: pad_def)
qed

lemma feed_short: "length buf < rate \<Longrightarrow> feed s buf = (s, buf)"
  by (simp add: feed.simps)

lemma feed_long:
  "rate \<le> length buf \<Longrightarrow> feed s buf = feed (absorb s (take rate buf)) (drop rate buf)"
  by (subst feed.simps) simp

lemma feed_append: "feed s (x @ y) = feed (fst (feed s x)) (snd (feed s x) @ y)"
proof (induction s x rule: feed.induct)
  case (1 s buf)
  show ?case
  proof (cases "rate \<le> length buf")
    case True
    then have "feed s (buf @ y) = feed (absorb s (take rate buf)) (drop rate buf @ y)"
      by (simp add: feed_long)
    with True 1 show ?thesis by (simp add: feed_long)
  next
    case False
    then show ?thesis by (simp add: feed_short)
  qed
qed

lemma absorb_blocks_feed:
  "foldl absorb s (chunks rate (pad m)) = absorb (fst (feed s m)) (pad (snd (feed s m)))"
proof (induction s m rule: feed.induct)
  case (1 s buf)
  show ?case
  proof (cases "rate \<le> length buf")
    case True
    have pos: "0 < rate" by (simp add: rate_def)
    from True have len: "length (take rate buf) = rate" by simp
    with pos have ne: "take rate buf @ pad (drop rate buf) \<noteq> []" by auto
    have step: "chunks rate (take rate buf @ pad (drop rate buf))
                = take rate buf # chunks rate (pad (drop rate buf))"
      using len by (simp add: chunks_step [OF pos ne])
    have c: "chunks rate (pad buf) = take rate buf # chunks rate (pad (drop rate buf))"
      by (subst pad_split [OF True]) (rule step)
    have f: "feed s buf = feed (absorb s (take rate buf)) (drop rate buf)"
      by (rule feed_long [OF True])
    show ?thesis unfolding f c using 1 [OF True] by simp
  next
    case False
    then have "chunks rate (pad buf) = [pad buf]"
      by (intro chunks_single) (simp_all add: length_pad_short rate_def)
    with False show ?thesis by (simp add: feed_short)
  qed
qed

lemma update_update: "update (update h a) b = update h (a @ b)"
proof -
  have "feed (lanes h) ((pending h @ a) @ b)
        = feed (fst (feed (lanes h) (pending h @ a))) (snd (feed (lanes h) (pending h @ a)) @ b)"
    by (rule feed_append)
  then show ?thesis by (simp add: update_def split: prod.splits)
qed

lemma digest_update_create: "digest (update create m) = keccak256 m"
  by (simp add: digest_def update_def create_def keccak256_def absorb_blocks_feed
           split: prod.splits)

lemma digest_two_updates: "digest (update (update create a) b) = keccak256 (a @ b)"
  by (simp add: update_update digest_update_create)

lemma hex_two_updates: "hex (update (update create a) b) = hex_encode (keccak256 (a @ b))"
  by (simp add: hex_def digest_two_updates)

section \<open>The digest has 32 bytes\<close>

text \<open>
  The permutation keeps the shape of the state, 25 lanes of 64 bits; every block of the padded
  message has 136 bytes; so 32 bytes are squeezed whatever the message.
\<close>

lemma length_lane_xor: "length (lane_xor a b) = min (length a) (length b)"
  by (induction a b rule: lane_xor.induct) simp_all

lemma length_lane_chi: "length (lane_chi a b c) = min (length a) (min (length b) (length c))"
  by (induction a b c rule: lane_chi.induct) simp_all

lemma length_rotl64: "n \<le> 64 \<Longrightarrow> length w = 64 \<Longrightarrow> length (rotl64 n w) = 64"
  by (simp add: rotl64_def)

lemma length_bits_of_nat: "length (bits_of_nat k n) = k"
  by (induction k n rule: bits_of_nat.induct) simp_all

lemma lanes_nth: "list_all (\<lambda>l. length l = 64) a \<Longrightarrow> i < length a \<Longrightarrow> length (a ! i) = 64"
  by (simp add: list_all_length)

lemma shape_theta_c:
  assumes "length a = 25" "list_all (\<lambda>l. length l = 64) a"
  shows "length (theta_c a) = 5 \<and> list_all (\<lambda>l. length l = 64) (theta_c a)"
  using assms by (simp add: theta_c_def list_all_length length_lane_xor)

lemma shape_theta_d:
  assumes "length c = 5" "list_all (\<lambda>l. length l = 64) c"
  shows "length (theta_d c) = 5 \<and> list_all (\<lambda>l. length l = 64) (theta_d c)"
  using assms by (simp add: theta_d_def list_all_length length_lane_xor length_rotl64)

lemma shape_theta_apply:
  assumes "length d = 5" "list_all (\<lambda>l. length l = 64) d"
    and "length a = 25" "list_all (\<lambda>l. length l = 64) a"
  shows "length (theta_apply d a) = 25 \<and> list_all (\<lambda>l. length l = 64) (theta_apply d a)"
  using assms by (simp add: theta_apply_def list_all_length length_lane_xor)

lemma shape_theta:
  assumes "length a = 25" "list_all (\<lambda>l. length l = 64) a"
  shows "length (theta a) = 25 \<and> list_all (\<lambda>l. length l = 64) (theta a)"
  unfolding theta_def using assms shape_theta_c [OF assms] shape_theta_d shape_theta_apply by blast

lemma shape_rho_pi:
  assumes "length a = 25" "list_all (\<lambda>l. length l = 64) a"
  shows "length (rho_pi a) = 25 \<and> list_all (\<lambda>l. length l = 64) (rho_pi a)"
proof -
  have "list_all (\<lambda>i. i < 25 \<and> rotation_offsets ! i \<le> 64) pi_index"
    by (simp add: pi_index_def rotation_offsets_def)
  then have "list_all (\<lambda>i. length (rotl64 (rotation_offsets ! i) (a ! i)) = 64) pi_index"
    using assms by (auto simp: list_all_iff length_rotl64 lanes_nth)
  then show ?thesis
    by (simp add: rho_pi_def list_all_iff) (simp add: pi_index_def)
qed

lemma shape_chi:
  "list_all (\<lambda>l. length l = 64) b \<Longrightarrow> list_all (\<lambda>l. length l = 64) (chi b)"
  by (induction b rule: chi.induct) (simp_all add: length_lane_chi)

lemma length_chi: "length (chi b) = 5 * (length b div 5)"
proof (induction b rule: chi.induct)
  case (1 b0 b1 b2 b3 b4 bs)
  have "(5 + length bs) div 5 = Suc (length bs div 5)" by simp
  with 1 show ?case by simp
qed simp_all

lemma shape_iota:
  assumes "length a = 25" "list_all (\<lambda>l. length l = 64) a" "length rc = 64"
  shows "length (iota rc a) = 25 \<and> list_all (\<lambda>l. length l = 64) (iota rc a)"
  using assms by (cases a) (simp_all add: iota_def length_lane_xor)

lemma shape_keccak_round:
  assumes "length a = 25" "list_all (\<lambda>l. length l = 64) a" "length rc = 64"
  shows "length (keccak_round a rc) = 25 \<and> list_all (\<lambda>l. length l = 64) (keccak_round a rc)"
proof -
  note t = shape_theta [OF assms(1,2)]
  note r = shape_rho_pi [OF conjunct1 [OF t] conjunct2 [OF t]]
  have c: "length (chi (rho_pi (theta a))) = 25"
    "list_all (\<lambda>l. length l = 64) (chi (rho_pi (theta a)))"
    using r by (simp_all add: length_chi shape_chi)
  show ?thesis unfolding keccak_round_def by (rule shape_iota [OF c assms(3)])
qed

lemma shape_rounds:
  "length a = 25 \<Longrightarrow> list_all (\<lambda>l. length l = 64) a \<Longrightarrow> list_all (\<lambda>l. length l = 64) rcs
   \<Longrightarrow> length (foldl keccak_round a rcs) = 25
       \<and> list_all (\<lambda>l. length l = 64) (foldl keccak_round a rcs)"
proof (induction rcs arbitrary: a)
  case Nil
  then show ?case by simp
next
  case (Cons rc rcs)
  from Cons.prems have "length (keccak_round a rc) = 25
      \<and> list_all (\<lambda>l. length l = 64) (keccak_round a rc)"
    by (intro shape_keccak_round) simp_all
  with Cons show ?case by simp
qed

lemma shape_keccak_f:
  assumes "length a = 25" "list_all (\<lambda>l. length l = 64) a"
  shows "length (keccak_f a) = 25 \<and> list_all (\<lambda>l. length l = 64) (keccak_f a)"
proof -
  have "list_all (\<lambda>l. length l = 64) round_constants"
    by (simp add: round_constants_def lane_of_nat_def length_bits_of_nat)
  with assms show ?thesis unfolding keccak_f_def by (rule shape_rounds)
qed

lemma chunks_shape:
  "0 < n \<Longrightarrow> length xs = k * n
   \<Longrightarrow> length (chunks n xs) = k \<and> list_all (\<lambda>c. length c = n) (chunks n xs)"
proof (induction k arbitrary: xs)
  case 0
  then show ?case by simp
next
  case (Suc k)
  then have ne: "xs \<noteq> []" by auto
  from Suc.prems have "length (drop n xs) = k * n" by simp
  with Suc have "length (chunks n (drop n xs)) = k
     \<and> list_all (\<lambda>c. length c = n) (chunks n (drop n xs))" by blast
  with Suc.prems show ?case by (simp add: chunks_step [OF Suc.prems(1) ne])
qed

lemma length_concat_bits: "length (concat (map bits_of_byte block)) = length block * 8"
  by (induction block) (simp_all add: bits_of_byte_def length_bits_of_nat)

lemma shape_absorb:
  assumes "length s = 25" "list_all (\<lambda>l. length l = 64) s" "length block = rate"
  shows "length (absorb s block) = 25 \<and> list_all (\<lambda>l. length l = 64) (absorb s block)"
proof -
  have "length (concat (map bits_of_byte block)) = 17 * 64"
    using assms(3) by (simp add: length_concat_bits rate_def)
  then have l: "length (lanes_of_block block) = 17
      \<and> list_all (\<lambda>c. length c = 64) (lanes_of_block block)"
    unfolding lanes_of_block_def by (intro chunks_shape) simp_all
  let ?x = "map2 lane_xor s (lanes_of_block block @ replicate 8 (replicate 64 False))"
  have "length ?x = 25" using assms(1) l by simp
  moreover have "list_all (\<lambda>l. length l = 64) ?x"
    using assms(1,2) l by (auto simp: list_all_length length_lane_xor nth_append)
  ultimately show ?thesis unfolding absorb_def by (rule shape_keccak_f)
qed

lemma shape_absorb_blocks:
  "length s = 25 \<Longrightarrow> list_all (\<lambda>l. length l = 64) s \<Longrightarrow> list_all (\<lambda>b. length b = rate) blocks
   \<Longrightarrow> length (foldl absorb s blocks) = 25
       \<and> list_all (\<lambda>l. length l = 64) (foldl absorb s blocks)"
proof (induction blocks arbitrary: s)
  case Nil
  then show ?case by simp
next
  case (Cons b bs)
  from Cons.prems have "length (absorb s b) = 25 \<and> list_all (\<lambda>l. length l = 64) (absorb s b)"
    by (intro shape_absorb) simp_all
  with Cons show ?case by simp
qed

lemma length_pad: "length (pad m) = (length m div rate + 1) * rate"
proof -
  have "length m mod rate < rate" by (simp add: rate_def)
  then have "length (pad m) = length m - length m mod rate + rate"
    by (simp add: pad_def length_padding)
  also have "length m - length m mod rate = length m div rate * rate"
    by (simp add: minus_mod_eq_div_mult)
  finally show ?thesis by simp
qed

lemma length_squeeze:
  assumes "length s = 25" "list_all (\<lambda>l. length l = 64) s"
  shows "length (squeeze s) = 32"
proof -
  have "length (concat (take 4 s)) = 32 * 8"
  proof -
    from assms obtain a b c d r where "s = a # b # c # d # r"
      by (cases s; simp; cases "tl s"; simp; cases "tl (tl s)"; simp; cases "tl (tl (tl s))"; simp)
    with assms(2) show ?thesis by simp
  qed
  then have "length (chunks 8 (concat (take 4 s))) = 32"
    using chunks_shape [of 8 "concat (take 4 s)" 32] by simp
  then show ?thesis by (simp add: squeeze_def)
qed

lemma length_keccak256: "length (keccak256 m) = 32"
proof -
  have "list_all (\<lambda>b. length b = rate) (chunks rate (pad m))"
    using chunks_shape [of rate "pad m" "length m div rate + 1"]
    by (simp add: length_pad rate_def)
  then have "length (foldl absorb initial_state (chunks rate (pad m))) = 25
      \<and> list_all (\<lambda>l. length l = 64) (foldl absorb initial_state (chunks rate (pad m)))"
    by (intro shape_absorb_blocks) (simp_all add: initial_state_def list_all_iff)
  then show ?thesis unfolding keccak256_def using length_squeeze by blast
qed

section \<open>Evaluating Keccak-256\<close>

text \<open>
  One round on a state written out lane by lane; with these equations the simplifier
  computes the permutation on a concrete state.
\<close>

lemma theta_c_unroll:
  "theta_c [a0, a1, a2, a3, a4, a5, a6, a7, a8, a9, a10, a11, a12, a13, a14, a15, a16, a17, a18, a19, a20,
     a21, a22, a23, a24] =
     [lane_xor a0 (lane_xor a5 (lane_xor a10 (lane_xor a15 a20))),
      lane_xor a1 (lane_xor a6 (lane_xor a11 (lane_xor a16 a21))),
      lane_xor a2 (lane_xor a7 (lane_xor a12 (lane_xor a17 a22))),
      lane_xor a3 (lane_xor a8 (lane_xor a13 (lane_xor a18 a23))),
      lane_xor a4 (lane_xor a9 (lane_xor a14 (lane_xor a19 a24)))]"
  by (simp add: theta_c_def upt_rec [of _ "numeral n" for n] upt_rec [of 0])

lemma theta_d_unroll:
  "theta_d [c0, c1, c2, c3, c4] =
     [lane_xor c4 (drop 63 c1 @ take 63 c1),
      lane_xor c0 (drop 63 c2 @ take 63 c2),
      lane_xor c1 (drop 63 c3 @ take 63 c3),
      lane_xor c2 (drop 63 c4 @ take 63 c4),
      lane_xor c3 (drop 63 c0 @ take 63 c0)]"
  by (simp add: theta_d_def rotl64_def upt_rec [of _ "numeral n" for n] upt_rec [of 0])

lemma theta_apply_unroll:
  "theta_apply [d0, d1, d2, d3, d4] [a0, a1, a2, a3, a4, a5, a6, a7, a8, a9, a10, a11, a12, a13, a14, a15, a16, a17, a18, a19, a20,
     a21, a22, a23, a24] =
    [lane_xor a0 d0, lane_xor a1 d1, lane_xor a2 d2, lane_xor a3 d3, lane_xor a4 d4, lane_xor a5 d0,
     lane_xor a6 d1, lane_xor a7 d2, lane_xor a8 d3, lane_xor a9 d4, lane_xor a10 d0,
     lane_xor a11 d1, lane_xor a12 d2, lane_xor a13 d3, lane_xor a14 d4, lane_xor a15 d0,
     lane_xor a16 d1, lane_xor a17 d2, lane_xor a18 d3, lane_xor a19 d4, lane_xor a20 d0,
     lane_xor a21 d1, lane_xor a22 d2, lane_xor a23 d3, lane_xor a24 d4]"
  by (simp add: theta_apply_def upt_rec [of _ "numeral n" for n] upt_rec [of 0])

lemma rho_pi_unroll:
  "rho_pi [a0, a1, a2, a3, a4, a5, a6, a7, a8, a9, a10, a11, a12, a13, a14, a15, a16, a17, a18, a19, a20,
     a21, a22, a23, a24] =
    [drop 64 a0 @ take 64 a0, drop 20 a6 @ take 20 a6, drop 21 a12 @ take 21 a12,
     drop 43 a18 @ take 43 a18, drop 50 a24 @ take 50 a24, drop 36 a3 @ take 36 a3,
     drop 44 a9 @ take 44 a9, drop 61 a10 @ take 61 a10, drop 19 a16 @ take 19 a16,
     drop 3 a22 @ take 3 a22, drop 63 a1 @ take 63 a1, drop 58 a7 @ take 58 a7,
     drop 39 a13 @ take 39 a13, drop 56 a19 @ take 56 a19, drop 46 a20 @ take 46 a20,
     drop 37 a4 @ take 37 a4, drop 28 a5 @ take 28 a5, drop 54 a11 @ take 54 a11,
     drop 49 a17 @ take 49 a17, drop 8 a23 @ take 8 a23, drop 2 a2 @ take 2 a2,
     drop 9 a8 @ take 9 a8, drop 25 a14 @ take 25 a14, drop 23 a15 @ take 23 a15,
     drop 62 a21 @ take 62 a21]"
  by (simp add: rho_pi_def pi_index_def rotation_offsets_def rotl64_def)

lemma iota_unroll: "iota rc (a # as) = lane_xor a rc # as"
  by (simp add: iota_def)

lemma take_num: "take (numeral v) (x # xs) = x # take (pred_numeral v) xs"
  by (simp add: take_Cons_numeral)

lemma drop_num: "drop (numeral v) (x # xs) = drop (pred_numeral v) xs"
  by (simp add: drop_Cons_numeral)

lemma replicate_num: "replicate (numeral k) x = x # replicate (pred_numeral k) x"
  by (simp add: numeral_eq_Suc)

lemma bits_of_nat_num:
  "bits_of_nat (numeral k) n = odd n # bits_of_nat (pred_numeral k) (n div 2)"
  by (simp add: numeral_eq_Suc)

lemma round_constants_bits:
  "round_constants =
    [[True, False, False, False, False, False, False, False, False, False, False, False, False,
     False, False, False, False, False, False, False, False, False, False, False, False, False,
     False, False, False, False, False, False, False, False, False, False, False, False, False,
     False, False, False, False, False, False, False, False, False, False, False, False, False,
     False, False, False, False, False, False, False, False, False, False, False, False],
     [False, True, False, False, False, False, False, True, False, False, False, False, False, False,
     False, True, False, False, False, False, False, False, False, False, False, False, False,
     False, False, False, False, False, False, False, False, False, False, False, False, False,
     False, False, False, False, False, False, False, False, False, False, False, False, False,
     False, False, False, False, False, False, False, False, False, False, False],
     [False, True, False, True, False, False, False, True, False, False, False, False, False, False,
     False, True, False, False, False, False, False, False, False, False, False, False, False,
     False, False, False, False, False, False, False, False, False, False, False, False, False,
     False, False, False, False, False, False, False, False, False, False, False, False, False,
     False, False, False, False, False, False, False, False, False, False, True],
     [False, False, False, False, False, False, False, False, False, False, False, False, False,
     False, False, True, False, False, False, False, False, False, False, False, False, False,
     False, False, False, False, False, True, False, False, False, False, False, False, False,
     False, False, False, False, False, False, False, False, False, False, False, False, False,
     False, False, False, False, False, False, False, False, False, False, False, True],
     [True, True, False, True, False, False, False, True, False, False, False, False, False, False,
     False, True, False, False, False, False, False, False, False, False, False, False, False,
     False, False, False, False, False, False, False, False, False, False, False, False, False,
     False, False, False, False, False, False, False, False, False, False, False, False, False,
     False, False, False, False, False, False, False, False, False, False, False],
     [True, False, False, False, False, False, False, False, False, False, False, False, False,
     False, False, False, False, False, False, False, False, False, False, False, False, False,
     False, False, False, False, False, True, False, False, False, False, False, False, False,
     False, False, False, False, False, False, False, False, False, False, False, False, False,
     False, False, False, False, False, False, False, False, False, False, False, False],
     [True, False, False, False, False, False, False, True, False, False, False, False, False, False,
     False, True, False, False, False, False, False, False, False, False, False, False, False,
     False, False, False, False, True, False, False, False, False, False, False, False, False,
     False, False, False, False, False, False, False, False, False, False, False, False, False,
     False, False, False, False, False, False, False, False, False, False, True],
     [True, False, False, True, False, False, False, False, False, False, False, False, False, False,
     False, True, False, False, False, False, False, False, False, False, False, False, False,
     False, False, False, False, False, False, False, False, False, False, False, False, False,
     False, False, False, False, False, False, False, False, False, False, False, False, False,
     False, False, False, False, False, False, False, False, False, False, True],
     [False, True, False, True, False, False, False, True, False, False, False, False, False, False,
     False, False, False, False, False, False, False, False, False, False, False, False, False,
     False, False, False, False, False, False, False, False, False, False, False, False, False,
     False, False, False, False, False, False, False, False, False, False, False, False, False,
     False, False, False, False, False, False, False, False, False, False, False],
     [False, False, False, True, False, False, False, True, False, False, False, False, False, False,
     False, False, False, False, False, False, False, False, False, False, False, False, False,
     False, False, False, False, False, False, False, False, False, False, False, False, False,
     False, False, False, False, False, False, False, False, False, False, False, False, False,
     False, False, False, False, False, False, False, False, False, False, False],
     [True, False, False, True, False, False, False, False, False, False, False, False, False, False,
     False, True, False, False, False, False, False, False, False, False, False, False, False,
     False, False, False, False, True, False, False, False, False, False, False, False, False,
     False, False, False, False, False, False, False, False, False, False, False, False, False,
     False, False, False, False, False, False, False, False, False, False, False],
     [False, True, False, True, False, False, False, False, False, False, False, False, False, False,
     False, False, False, False, False, False, False, False, False, False, False, False, False,
     False, False, False, False, True, False, False, False, False, False, False, False, False,
     False, False, False, False, False, False, False, False, False, False, False, False, False,
     False, False, False, False, False, False, False, False, False, False, False],
     [True, True, False, True, False, False, False, True, False, False, False, False, False, False,
     False, True, False, False, False, False, False, False, False, False, False, False, False,
     False, False, False, False, True, False, False, False, False, False, False, False, False,
     False, False, False, False, False, False, False, False, False, False, False, False, False,
     False, False, False, False, False, False, False, False, False, False, False],
     [True, True, False, True, False, False, False, True, False, False, False, False, False, False,
     False, False, False, False, False, False, False, False, False, False, False, False, False,
     False, False, False, False, False, False, False, False, False, False, False, False, False,
     False, False, False, False, False, False, False, False, False, False, False, False, False,
     False, False, False, False, False, False, False, False, False, False, True],
     [True, False, False, True, False, False, False, True, False, False, False, False, False, False,
     False, True, False, False, False, False, False, False, False, False, False, False, False,
     False, False, False, False, False, False, False, False, False, False, False, False, False,
     False, False, False, False, False, False, False, False, False, False, False, False, False,
     False, False, False, False, False, False, False, False, False, False, True],
     [True, True, False, False, False, False, False, False, False, False, False, False, False, False,
     False, True, False, False, False, False, False, False, False, False, False, False, False,
     False, False, False, False, False, False, False, False, False, False, False, False, False,
     False, False, False, False, False, False, False, False, False, False, False, False, False,
     False, False, False, False, False, False, False, False, False, False, True],
     [False, True, False, False, False, False, False, False, False, False, False, False, False,
     False, False, True, False, False, False, False, False, False, False, False, False, False,
     False, False, False, False, False, False, False, False, False, False, False, False, False,
     False, False, False, False, False, False, False, False, False, False, False, False, False,
     False, False, False, False, False, False, False, False, False, False, False, True],
     [False, False, False, False, False, False, False, True, False, False, False, False, False,
     False, False, False, False, False, False, False, False, False, False, False, False, False,
     False, False, False, False, False, False, False, False, False, False, False, False, False,
     False, False, False, False, False, False, False, False, False, False, False, False, False,
     False, False, False, False, False, False, False, False, False, False, False, True],
     [False, True, False, True, False, False, False, False, False, False, False, False, False, False,
     False, True, False, False, False, False, False, False, False, False, False, False, False,
     False, False, False, False, False, False, False, False, False, False, False, False, False,
     False, False, False, False, False, False, False, False, False, False, False, False, False,
     False, False, False, False, False, False, False, False, False, False, False],
     [False, True, False, True, False, False, False, False, False, False, False, False, False, False,
     False, False, False, False, False, False, False, False, False, False, False, False, False,
     False, False, False, False, True, False, False, False, False, False, False, False, False,
     False, False, False, False, False, False, False, False, False, False, False, False, False,
     False, False, False, False, False, False, False, False, False, False, True],
     [True, False, False, False, False, False, False, True, False, False, False, False, False, False,
     False, True, False, False, False, False, False, False, False, False, False, False, False,
     False, False, False, False, True, False, False, False, False, False, False, False, False,
     False, False, False, False, False, False, False, False, False, False, False, False, False,
     False, False, False, False, False, False, False, False, False, False, True],
     [False, False, False, False, False, False, False, True, False, False, False, False, False,
     False, False, True, False, False, False, False, False, False, False, False, False, False,
     False, False, False, False, False, False, False, False, False, False, False, False, False,
     False, False, False, False, False, False, False, False, False, False, False, False, False,
     False, False, False, False, False, False, False, False, False, False, False, True],
     [True, False, False, False, False, False, False, False, False, False, False, False, False,
     False, False, False, False, False, False, False, False, False, False, False, False, False,
     False, False, False, False, False, True, False, False, False, False, False, False, False,
     False, False, False, False, False, False, False, False, False, False, False, False, False,
     False, False, False, False, False, False, False, False, False, False, False, False],
     [False, False, False, True, False, False, False, False, False, False, False, False, False,
     False, False, True, False, False, False, False, False, False, False, False, False, False,
     False, False, False, False, False, True, False, False, False, False, False, False, False,
     False, False, False, False, False, False, False, False, False, False, False, False, False,
     False, False, False, False, False, False, False, False, False, False, False, True]]"
  by (simp add: round_constants_def lane_of_nat_def bits_of_nat_num)

lemmas keccak_f_eval =
  theta_c_unroll theta_d_unroll theta_apply_unroll rho_pi_unroll iota_unroll theta_def
  keccak_round_def keccak_f_def round_constants_bits foldl_Cons foldl_Nil
  chi.simps chi_row.simps lane_xor.simps lane_chi.simps take_num drop_num take_0 drop_0
  take_Nil drop_Nil append_Cons append_Nil pred_numeral_simps BitM.simps simp_thms

lemmas block_eval =
  rate_def absorb_def pad_def padding_def initial_state_def lanes_of_block_def bits_of_byte_def
  bits_of_nat_num replicate_num

lemma keccak256_one_block:
  "length m < rate \<Longrightarrow> keccak256 m = squeeze (absorb initial_state (pad m))"
  by (cases m) (simp_all add: keccak256_def pad_def padding_def rate_def Let_def)

text \<open>
  The digest of the empty message, the well-known
  \<open>c5d2460186f7233c927e7db2dcc703c0e500b653ca82273b7bfad8045d85a470\<close>.
\<close>

lemma keccak256_empty:
  "keccak256 [] =
    [0xc5, 0xd2, 0x46, 0x01, 0x86, 0xf7, 0x23, 0x3c, 0x92, 0x7e, 0x7d, 0xb2, 0xdc, 0xc7, 0x03, 0xc0,
     0xe5, 0x00, 0xb6, 0x53, 0xca, 0x82, 0x27, 0x3b, 0x7b, 0xfa, 0xd8, 0x04, 0x5d, 0x85, 0xa4, 0x70]"
  apply (simp add: keccak256_one_block block_eval)
  apply (simp only: keccak_f_eval)
  apply (simp add: squeeze_def byte_of_bits_def)
  done

lemma keccak256_xlm:
  "keccak256 [0x78, 0x6c, 0x6d] =
    [0x74, 0x5b, 0xb2, 0x89, 0x99, 0xb7, 0xd2, 0x2e, 0x04, 0xec, 0xc9, 0x71, 0x9a, 0x46, 0x0c, 0xa0,
     0x8b, 0x4c, 0x0a, 0xc2, 0x04, 0x4a, 0xdf, 0x23, 0xad, 0x2b, 0xb4, 0xdb, 0x8f, 0x8e, 0xaf, 0x6b]"
  apply (simp add: keccak256_one_block block_eval)
  apply (simp only: keccak_f_eval)
  apply (simp add: squeeze_def byte_of_bits_def)
  done

text \<open>The root node of the empty domain, its digest, and the sub-domain node over them.\<close>

lemma keccak256_root:
  "keccak256 [0x74, 0x5b, 0xb2, 0x89, 0x99, 0xb7, 0xd2, 0x2e, 0x04, 0xec, 0xc9, 0x71, 0x9a, 0x46, 0x0c, 0xa0,
     0x8b, 0x4c, 0x0a, 0xc2, 0x04, 0x4a, 0xdf, 0x23, 0xad, 0x2b, 0xb4, 0xdb, 0x8f, 0x8e, 0xaf, 0x6b,
     0xc5, 0xd2, 0x46, 0x01, 0x86, 0xf7, 0x23, 0x3c, 0x92, 0x7e, 0x7d, 0xb2, 0xdc, 0xc7, 0x03, 0xc0,
     0xe5, 0x00, 0xb6, 0x53, 0xca, 0x82, 0x27, 0x3b, 0x7b, 0xfa, 0xd8, 0x04, 0x5d, 0x85, 0xa4, 0x70] =
    [0x54, 0x74, 0x69, 0xf0, 0xc4, 0x2d, 0x14, 0x19, 0x43, 0x99, 0xc8, 0x72, 0x86, 0x96, 0x20, 0x86,
     0x27, 0xe8, 0x84, 0x96, 0x76, 0x0d, 0xe2, 0x8a, 0xa3, 0xd6, 0xbf, 0x33, 0x1a, 0xd1, 0x5c, 0x38]"
  apply (simp add: keccak256_one_block block_eval)
  apply (simp only: keccak_f_eval)
  apply (simp add: squeeze_def byte_of_bits_def)
  done

lemma keccak256_root_digest:
  "keccak256 [0x54, 0x74, 0x69, 0xf0, 0xc4, 0x2d, 0x14, 0x19, 0x43, 0x99, 0xc8, 0x72, 0x86, 0x96, 0x20, 0x86,
     0x27, 0xe8, 0x84, 0x96, 0x76, 0x0d, 0xe2, 0x8a, 0xa3, 0xd6, 0xbf, 0x33, 0x1a, 0xd1, 0x5c, 0x38] =
    [0x5f, 0xaf, 0xb2, 0x6e, 0x79, 0x40, 0x2c, 0xce, 0xf9, 0x09, 0x04, 0xcb, 0x6f, 0x20, 0x3e, 0xb0,
     0xa5, 0x9e, 0xe2, 0x17, 0x7a, 0x1c, 0x10, 0x2a, 0x2a, 0x83, 0x46, 0x11, 0x34, 0x72, 0x85, 0x79]"
  apply (simp add: keccak256_one_block block_eval)
  apply (simp only: keccak_f_eval)
  apply (simp add: squeeze_def byte_of_bits_def)
  done

lemma keccak256_sub:
  "keccak256 [0x5f, 0xaf, 0xb2, 0x6e, 0x79, 0x40, 0x2c, 0xce, 0xf9, 0x09, 0x04, 0xcb, 0x6f, 0x20, 0x3e, 0xb0,
     0xa5, 0x9e, 0xe2, 0x17, 0x7a, 0x1c, 0x10, 0x2a, 0x2a, 0x83, 0x46, 0x11, 0x34, 0x72, 0x85, 0x79,
     0xc5, 0xd2, 0x46, 0x01, 0x86, 0xf7, 0x23, 0x3c, 0x92, 0x7e, 0x7d, 0xb2, 0xdc, 0xc7, 0x03, 0xc0,
     0xe5, 0x00, 0xb6, 0x53, 0xca, 0x82, 0x27, 0x3b, 0x7b, 0xfa, 0xd8, 0x04, 0x5d, 0x85, 0xa4, 0x70] =
    [0xce, 0x7b, 0xcf, 0x38, 0x82, 0x58, 0xc0, 0x74, 0xde, 0x3d, 0xa4, 0x62, 0xff, 0xca, 0x40, 0x0e,
     0x16, 0x7d, 0x4c, 0xb2, 0xf4, 0x12, 0x5d, 0x2e, 0x3f, 0x27, 0xb3, 0xf9, 0x35, 0x83, 0x47, 0xb5]"
  apply (simp add: keccak256_one_block block_eval)
  apply (simp only: keccak_f_eval)
  apply (simp add: squeeze_def byte_of_bits_def)
  done

section \<open>Node derivation\<close>

lemma parseDomain_None:
  "parseDomain \<lparr>domain = d, subDomain = None\<rparr>
     = hex_encode (keccak256 (keccak256 (utf8 ''xlm'') @ keccak256 (utf8 d)))"
  by (simp add: parseDomain_def Let_def hex_two_updates digest_update_create)

lemma parseDomain_empty:
  "parseDomain \<lparr>domain = d, subDomain = Some []\<rparr>
     = hex_encode (keccak256 (keccak256 (utf8 ''xlm'') @ keccak256 (utf8 d)))"
  by (simp add: parseDomain_def Let_def hex_two_updates digest_update_create)

lemma parseDomain_Some:
  "s \<noteq> [] \<Longrightarrow>
   parseDomain \<lparr>domain = d, subDomain = Some s\<rparr>
     = hex_encode (keccak256
         (keccak256 (keccak256 (keccak256 (utf8 ''xlm'') @ keccak256 (utf8 d)))
          @ keccak256 (utf8 s)))"
  by (simp add: parseDomain_def Let_def hex_two_updates digest_two_updates digest_update_create)

text \<open>A fixed vector: the node of the domain \<open>""\<close>.\<close>

lemma parseDomain_empty_domain:
  "parseDomain \<lparr>domain = [], subDomain = None\<rparr>
     = ''547469f0c42d14194399c8728696208627e88496760de28aa3d6bf331ad15c38''"
proof -
  have "keccak256 (keccak256 (utf8 ''xlm'') @ keccak256 (utf8 [])) =
    [0x54, 0x74, 0x69, 0xf0, 0xc4, 0x2d, 0x14, 0x19, 0x43, 0x99, 0xc8, 0x72, 0x86, 0x96, 0x20, 0x86,
     0x27, 0xe8, 0x84, 0x96, 0x76, 0x0d, 0xe2, 0x8a, 0xa3, 0xd6, 0xbf, 0x33, 0x1a, 0xd1, 0x5c, 0x38]"
    by (simp add: utf8_def keccak256_xlm keccak256_empty keccak256_root)
  then show ?thesis
    unfolding parseDomain_None by (simp add: hex_encode_def hex_of_byte_def hex_digits_def)
qed

text \<open>
  Claim C1. For every domain string \<open>d\<close>, the empty one included, \<open>parseDomain\<close> without a
  sub-domain returns the hexadecimal text of the Keccak-256 digest of the digest of
  \<open>"xlm"\<close> followed by the digest of \<open>d\<close>, fed to one hasher in two updates. The text has only
  64 characters, all of them among the lowercase digits \<open>0\<close> to \<open>f\<close>, hence no prefix. The function
  has no failing path: its result is a string for every input.
\<close>

theorem parseDomain_root_digest:
  "parseDomain \<lparr>domain = d, subDomain = None\<rparr>
     = hex_encode (keccak256 (keccak256 (utf8 ''xlm'') @ keccak256 (utf8 d)))
   \<and> length (parseDomain \<lparr>domain = d, subDomain = None\<rparr>) = 64
   \<and> set (parseDomain \<lparr>domain = d, subDomain = None\<rparr>) \<subseteq> set hex_digits"
proof -
  let ?root = "keccak256 (keccak256 (utf8 ''xlm'') @ keccak256 (utf8 d))"
  have e: "parseDomain \<lparr>domain = d, subDomain = None\<rparr> = hex_encode ?root"
    by (rule parseDomain_None)
  have "length (hex_encode ?root) = 64"
    by (simp add: length_hex_encode length_keccak256)
  moreover have "set (hex_encode ?root) \<subseteq> set hex_digits"
    by (rule set_hex_encode)
  ultimately show ?thesis unfolding e by simp
qed

text \<open>
  Claim C2, as stated, at the domain \<open>""\<close> and the sub-domain \<open>""\<close>: the sub-domain is given,
  it is the empty string, and \<open>parseDomain\<close> returns the root node, which is not the
  sub-domain digest the claim names.
\<close>

theorem parseDomain_empty_subDomain_counterexample:
  "parseDomain \<lparr>domain = [], subDomain = Some []\<rparr>
     \<noteq> hex_encode (keccak256
           (keccak256 (keccak256 (keccak256 (utf8 ''xlm'') @ keccak256 (utf8 [])))
            @ keccak256 (utf8 [])))
   \<and> parseDomain \<lparr>domain = [], subDomain = Some []\<rparr>
       = ''547469f0c42d14194399c8728696208627e88496760de28aa3d6bf331ad15c38''
   \<and> hex_encode (keccak256
           (keccak256 (keccak256 (keccak256 (utf8 ''xlm'') @ keccak256 (utf8 [])))
            @ keccak256 (utf8 [])))
       = ''ce7bcf388258c074de3da462ffca400e167d4cb2f4125d2e3f27b3f9358347b5''"
proof -
  have u: "utf8 ''xlm'' = [0x78, 0x6c, 0x6d]" "utf8 [] = []"
    by (simp_all add: utf8_def)
  have root: "keccak256 (keccak256 (utf8 ''xlm'') @ keccak256 (utf8 [])) =
    [0x54, 0x74, 0x69, 0xf0, 0xc4, 0x2d, 0x14, 0x19, 0x43, 0x99, 0xc8, 0x72, 0x86, 0x96, 0x20, 0x86,
     0x27, 0xe8, 0x84, 0x96, 0x76, 0x0d, 0xe2, 0x8a, 0xa3, 0xd6, 0xbf, 0x33, 0x1a, 0xd1, 0x5c, 0x38]"
    by (simp add: u keccak256_xlm keccak256_empty keccak256_root)
  have sub: "keccak256
           (keccak256 (keccak256 (keccak256 (utf8 ''xlm'') @ keccak256 (utf8 [])))
            @ keccak256 (utf8 [])) =
    [0xce, 0x7b, 0xcf, 0x38, 0x82, 0x58, 0xc0, 0x74, 0xde, 0x3d, 0xa4, 0x62, 0xff, 0xca, 0x40, 0x0e,
     0x16, 0x7d, 0x4c, 0xb2, 0xf4, 0x12, 0x5d, 0x2e, 0x3f, 0x27, 0xb3, 0xf9, 0x35, 0x83, 0x47, 0xb5]"
    unfolding root by (simp add: u keccak256_empty keccak256_root_digest keccak256_sub)
  have l: "parseDomain \<lparr>domain = [], subDomain = Some []\<rparr>
       = ''547469f0c42d14194399c8728696208627e88496760de28aa3d6bf331ad15c38''"
    unfolding parseDomain_empty root
    by (simp add: hex_encode_def hex_of_byte_def hex_digits_def)
  have r: "hex_encode (keccak256
           (keccak256 (keccak256 (keccak256 (utf8 ''xlm'') @ keccak256 (utf8 [])))
            @ keccak256 (utf8 [])))
       = ''ce7bcf388258c074de3da462ffca400e167d4cb2f4125d2e3f27b3f9358347b5''"
    unfolding sub by (simp add: hex_encode_def hex_of_byte_def hex_digits_def)
  show ?thesis unfolding l r by simp
qed

text \<open>
  Claim C2, amended. For every domain string \<open>d\<close> and every non-empty sub-domain string
  \<open>s\<close>, \<open>parseDomain\<close> returns the hexadecimal text of the Keccak-256 digest of the digest of
  the root digest followed by the digest of \<open>s\<close>, the root digest being the 32 raw bytes
  derived from \<open>d\<close> as in claim C1.
\<close>

theorem parseDomain_sub_digest:
  assumes "s \<noteq> []"
  shows "parseDomain \<lparr>domain = d, subDomain = Some s\<rparr>
     = hex_encode (keccak256
         (keccak256 (keccak256 (keccak256 (utf8 ''xlm'') @ keccak256 (utf8 d)))
          @ keccak256 (utf8 s)))
   \<and> length (keccak256 (keccak256 (utf8 ''xlm'') @ keccak256 (utf8 d))) = 32"
  using assms by (simp add: parseDomain_Some length_keccak256)

theorem parseDomain_sub_digest_witness:
  "parseDomain \<lparr>domain = ''example'', subDomain = Some ''www''\<rparr>
     = hex_encode (keccak256
         (keccak256 (keccak256 (keccak256 (utf8 ''xlm'') @ keccak256 (utf8 ''example'')))
          @ keccak256 (utf8 ''www'')))"
proof -
  have "''www'' \<noteq> []" by simp
  from parseDomain_sub_digest [OF this] show ?thesis by (rule conjunct1)
qed

section \<open>What an operation does once it has simulated\<close>

lemma record_key_eq:
  "record_key p =
     ScvVec [ScvSymbol (JString (if truthy_string (subDomain p) then ''SubRecord'' else ''Record'')),
             ScvBytes (JBuffer (Buffer_from_hex (parseDomain p)))]"
  by (cases p) (simp add: record_key_def Let_def)

lemma searchDomain_simulated:
  assumes "SimulateTransaction tx \<in> set (rpc_calls (searchDomain g p))"
  shows "outcome (searchDomain g p) =
           (case simulateTransaction (rpc g) tx of
              Inl e \<Rightarrow> Inl e
            | Inr sim \<Rightarrow>
                if isSimulationError sim then Inl (Error (sim_error sim))
                else and_then (result_retval sim)
                       (\<lambda>retval. record_of_result (Buffer_toString (stellarSDK g))
                                  (scValToNative (stellarSDK g) retval)))"
    and "\<exists>c. tx_operations tx = [Call c ''record'' [record_key p]]"
  using assms
  by (auto simp: searchDomain_def Let_def build_transaction_def
           split: option.splits if_splits sum.splits)

lemma getDomainData_simulated:
  assumes "SimulateTransaction tx \<in> set (rpc_calls (getDomainData g n k))"
  shows "outcome (getDomainData g n k) =
           (case simulateTransaction (rpc g) tx of
              Inl e \<Rightarrow> Inl e
            | Inr sim \<Rightarrow>
                if isSimulationError sim then Inl (Error (sim_error sim))
                else and_then (result_retval sim)
                       (\<lambda>retval. if \<not> truthy (scValToNative (stellarSDK g) retval)
                                  then Inl DomainData404Error
                                  else Inr (scValToNative (stellarSDK g) retval)))"
  using assms
  by (auto simp: getDomainData_def Let_def split: option.splits if_splits sum.splits)

lemma setDomainData_simulated:
  assumes "SimulateTransaction tx \<in> set (rpc_calls (setDomainData g n k v s))"
  shows "outcome (setDomainData g n k v s) =
           (case simulateTransaction (rpc g) tx of
              Inl e \<Rightarrow> Inl e
            | Inr sim \<Rightarrow>
                if isSimulationError sim then Inl (Error (sim_error sim))
                else and_then (assembleTransaction (stellarSDK g) tx sim) (\<lambda>t. Inr (t, sim)))"
  using assms
  by (auto simp: setDomainData_def Let_def split: option.splits if_splits sum.splits)

lemma removeDomainData_simulated:
  assumes "SimulateTransaction tx \<in> set (rpc_calls (removeDomainData g n k s))"
  shows "outcome (removeDomainData g n k s) =
           (case simulateTransaction (rpc g) tx of
              Inl e \<Rightarrow> Inl e
            | Inr sim \<Rightarrow>
                if isSimulationError sim then Inl (Error (sim_error sim))
                else and_then (assembleTransaction (stellarSDK g) tx sim) (\<lambda>t. Inr (t, sim)))"
  using assms
  by (auto simp: removeDomainData_def Let_def split: option.splits if_splits sum.splits)

lemma searchDomain_decoded:
  assumes "SimulateTransaction tx \<in> set (rpc_calls (searchDomain g p))"
    and "simulateTransaction (rpc g) tx = Inr sim" and "\<not> isSimulationError sim"
    and "result_retval sim = Inr retval"
  shows "outcome (searchDomain g p)
           = record_of_result (Buffer_toString (stellarSDK g)) (scValToNative (stellarSDK g) retval)"
  using assms(2-) by (simp add: searchDomain_simulated(1) [OF assms(1)] and_then_def)

lemma getDomainData_decoded:
  assumes "SimulateTransaction tx \<in> set (rpc_calls (getDomainData g n k))"
    and "simulateTransaction (rpc g) tx = Inr sim" and "\<not> isSimulationError sim"
    and "result_retval sim = Inr retval"
  shows "outcome (getDomainData g n k) =
           (if \<not> truthy (scValToNative (stellarSDK g) retval) then Inl DomainData404Error
            else Inr (scValToNative (stellarSDK g) retval))"
  using assms(2-) by (simp add: getDomainData_simulated [OF assms(1)] and_then_def)

section \<open>Decoding a record\<close>

lemma record_of_result_falsy: "\<not> truthy v \<Longrightarrow> record_of_result u v = Inl Domain404Error"
  by (simp add: record_of_result_def)

lemma field_raw_object:
  "js_index result 1 = Inr (JObject fs) \<Longrightarrow> map_of fs k = Some v
     \<Longrightarrow> field_raw result k = Inr v"
  by (simp add: field_raw_def and_then_def js_get_def)

lemma field_hex_buffer:
  "js_index result 1 = Inr (JObject fs) \<Longrightarrow> map_of fs k = Some (JBuffer bs)
     \<Longrightarrow> field_hex u result k = Inr (hex_encode bs)"
  by (simp add: field_hex_def field_raw_object and_then_def toString_hex_def)

lemma field_dec_integer:
  "js_index result 1 = Inr (JObject fs) \<Longrightarrow> map_of fs k = Some v
     \<Longrightarrow> integer_of v = Some i \<Longrightarrow> field_dec u result k = Inr (dec_int i)"
  by (cases v) (simp_all add: field_dec_def field_raw_object and_then_def toString_def integer_of_def)

lemma record_of_result_Domain:
  assumes "truthy result" "js_index result 0 = Inr (JString ''Domain'')"
    and r1: "js_index result 1 = Inr (JObject fs)"
    and "map_of fs ''node'' = Some (JBuffer n)" "map_of fs ''owner'' = Some (JBuffer ow)"
    and "map_of fs ''address'' = Some a"
    and "map_of fs ''exp_date'' = Some ev" "integer_of ev = Some e"
    and "map_of fs ''snapshot'' = Some sv" "integer_of sv = Some sn"
    and "map_of fs ''collateral'' = Some cv" "integer_of cv = Some c"
  shows "record_of_result u result
           = Inr (Domain (hex_encode n) (hex_encode ow) a (dec_int e) (dec_int sn) (dec_int c))"
proof -
  have "field_hex u result ''node'' = Inr (hex_encode n)"
    "field_hex u result ''owner'' = Inr (hex_encode ow)"
    "field_raw result ''address'' = Inr a"
    "field_dec u result ''exp_date'' = Inr (dec_int e)"
    "field_dec u result ''snapshot'' = Inr (dec_int sn)"
    "field_dec u result ''collateral'' = Inr (dec_int c)"
    using assms
    by (simp_all only: field_hex_buffer [OF r1] field_raw_object [OF r1] field_dec_integer [OF r1])
  with assms(1,2) show ?thesis
    by (simp add: record_of_result_def and_then_def)
qed

lemma record_of_result_SubDomain:
  assumes "truthy result" "js_index result 0 = Inr tag" "tag \<noteq> JString ''Domain''"
    and r1: "js_index result 1 = Inr (JObject fs)"
    and "map_of fs ''node'' = Some (JBuffer n)" "map_of fs ''parent'' = Some (JBuffer pa)"
    and "map_of fs ''address'' = Some a"
    and "map_of fs ''snapshot'' = Some sv" "integer_of sv = Some sn"
  shows "record_of_result u result = Inr (SubDomain (hex_encode n) (hex_encode pa) a (dec_int sn))"
proof -
  have "field_hex u result ''node'' = Inr (hex_encode n)"
    "field_hex u result ''parent'' = Inr (hex_encode pa)"
    "field_raw result ''address'' = Inr a"
    "field_dec u result ''snapshot'' = Inr (dec_int sn)"
    using assms
    by (simp_all only: field_hex_buffer [OF r1] field_raw_object [OF r1] field_dec_integer [OF r1])
  with assms(1-3) show ?thesis
    by (simp add: record_of_result_def and_then_def)
qed

lemmas render_defs =
  hex_encode_def hex_of_byte_def hex_digits_def dec_int_def dec_nat.simps dec_digits_def

lemmas sample_defs =
  sample_global_def sample_sdk_def sample_rpc_def sample_transaction_def
  build_transaction_def timeout_or_zero_def

text \<open>
  Claim C3. When \<open>searchDomain\<close> has simulated and the decoded return value is a two-element
  sequence whose first element is the tag \<open>"Domain"\<close> and whose second element carries the
  fields of the contract's record, it resolves to the Domain variant with all six fields:
  the byte fields \<open>node\<close> and \<open>owner\<close> in hexadecimal, \<open>address\<close> unchanged, the integer fields
  \<open>exp_date\<close>, \<open>snapshot\<close> and \<open>collateral\<close> in decimal. With any other first element it
  resolves to the SubDomain variant with its four fields \<open>node\<close>, \<open>parent\<close>, \<open>address\<close> and
  \<open>snapshot\<close>. An integer field is a bigint, or a number in the range where numbers are exact
  integers printed without an exponent.
\<close>

theorem searchDomain_record_variant:
  assumes "SimulateTransaction tx \<in> set (rpc_calls (searchDomain g p))"
    and "simulateTransaction (rpc g) tx = Inr sim" and "\<not> isSimulationError sim"
    and "result_retval sim = Inr retval"
    and "scValToNative (stellarSDK g) retval = result" and "truthy result"
    and "js_index result 0 = Inr tag" and "js_index result 1 = Inr (JObject fs)"
    and "map_of fs ''node'' = Some (JBuffer n)" and "map_of fs ''address'' = Some a"
    and "map_of fs ''snapshot'' = Some sv" and "integer_of sv = Some sn"
  shows "(tag = JString ''Domain'' \<and> map_of fs ''owner'' = Some (JBuffer ow)
           \<and> map_of fs ''exp_date'' = Some ev \<and> integer_of ev = Some e
           \<and> map_of fs ''collateral'' = Some cv \<and> integer_of cv = Some c
          \<longrightarrow> outcome (searchDomain g p)
                = Inr (Domain (hex_encode n) (hex_encode ow) a (dec_int e) (dec_int sn) (dec_int c)))
       \<and> (tag \<noteq> JString ''Domain'' \<and> map_of fs ''parent'' = Some (JBuffer pa)
          \<longrightarrow> outcome (searchDomain g p)
                = Inr (SubDomain (hex_encode n) (hex_encode pa) a (dec_int sn)))"
proof -
  have d: "outcome (searchDomain g p) = record_of_result (Buffer_toString (stellarSDK g)) result"
    using searchDomain_decoded [OF assms(1-4)] assms(5) by simp
  show ?thesis
  proof (intro conjI impI)
    assume A: "tag = JString ''Domain'' \<and> map_of fs ''owner'' = Some (JBuffer ow)
           \<and> map_of fs ''exp_date'' = Some ev \<and> integer_of ev = Some e
           \<and> map_of fs ''collateral'' = Some cv \<and> integer_of cv = Some c"
    then have t: "js_index result 0 = Inr (JString ''Domain'')"
      using assms(7) by simp
    from A have o: "map_of fs ''owner'' = Some (JBuffer ow)"
      and ex: "map_of fs ''exp_date'' = Some ev" "integer_of ev = Some e"
      and co: "map_of fs ''collateral'' = Some cv" "integer_of cv = Some c"
      by simp_all
    show "outcome (searchDomain g p)
                = Inr (Domain (hex_encode n) (hex_encode ow) a (dec_int e) (dec_int sn) (dec_int c))"
      unfolding d
      by (rule record_of_result_Domain
            [OF assms(6) t assms(8) assms(9) o assms(10) ex assms(11) assms(12) co])
  next
    assume B: "tag \<noteq> JString ''Domain'' \<and> map_of fs ''parent'' = Some (JBuffer pa)"
    then have t: "tag \<noteq> JString ''Domain''" and pa: "map_of fs ''parent'' = Some (JBuffer pa)"
      by simp_all
    show "outcome (searchDomain g p)
                = Inr (SubDomain (hex_encode n) (hex_encode pa) a (dec_int sn))"
      unfolding d
      by (rule record_of_result_SubDomain
            [OF assms(6) assms(7) t assms(8) assms(9) pa assms(10) assms(11) assms(12)])
  qed
qed

theorem searchDomain_record_variant_witness:
  "outcome (searchDomain
          (sample_global (Some ''CVAULTS'') None
             (JArray [JString ''Domain'',
                      JObject [(''node'', JBuffer [0xab, 0x01]), (''owner'', JBuffer [0x0f]),
                               (''address'', JString ''GADDR''), (''exp_date'', JBigInt 1700000000),
                               (''snapshot'', JBigInt 42), (''collateral'', JBigInt 1000)]])
             (SimulationSuccess (Some (ScvArm ''vec'' JNull))))
          \<lparr>domain = ''example'', subDomain = None\<rparr>)
     = Inr (Domain ''ab01'' ''0f'' (JString ''GADDR'') ''1700000000'' ''42'' ''1000'')
   \<and> outcome (searchDomain
          (sample_global (Some ''CVAULTS'') None
             (JArray [JString ''SubDomain'',
                      JObject [(''node'', JBuffer [0xab, 0x01]), (''parent'', JBuffer [0x0f]),
                               (''address'', JString ''GADDR''), (''snapshot'', JNumber 42)]])
             (SimulationSuccess (Some (ScvArm ''vec'' JNull))))
          \<lparr>domain = ''example'', subDomain = Some ''www''\<rparr>)
     = Inr (SubDomain ''ab01'' ''0f'' (JString ''GADDR'') ''42'')"
proof -
  let ?sim = "SimulationSuccess (Some (ScvArm ''vec'' JNull))"
  let ?fd = "[(''node'', JBuffer [0xab, 0x01]), (''owner'', JBuffer [0x0f]),
              (''address'', JString ''GADDR''), (''exp_date'', JBigInt 1700000000),
              (''snapshot'', JBigInt 42), (''collateral'', JBigInt 1000)]"
  let ?fs = "[(''node'', JBuffer [0xab, 0x01]), (''parent'', JBuffer [0x0f]),
              (''address'', JString ''GADDR''), (''snapshot'', JNumber 42)]"
  let ?gd = "sample_global (Some ''CVAULTS'') None (JArray [JString ''Domain'', JObject ?fd]) ?sim"
  let ?gs = "sample_global (Some ''CVAULTS'') None (JArray [JString ''SubDomain'', JObject ?fs]) ?sim"
  let ?pd = "\<lparr>domain = ''example'', subDomain = None\<rparr>"
  let ?ps = "\<lparr>domain = ''example'', subDomain = Some ''www''\<rparr>"
  let ?txd = "sample_transaction ''GSIM'' ''CVAULTS'' ''record'' [record_key ?pd]"
  let ?txs = "sample_transaction ''GSIM'' ''CVAULTS'' ''record'' [record_key ?ps]"
  have 1: "SimulateTransaction ?txd \<in> set (rpc_calls (searchDomain ?gd ?pd))"
    by (simp add: searchDomain_def sample_defs)
  have 2: "SimulateTransaction ?txs \<in> set (rpc_calls (searchDomain ?gs ?ps))"
    by (simp add: searchDomain_def sample_defs)
  have a: "outcome (searchDomain ?gd ?pd)
     = Inr (Domain ''ab01'' ''0f'' (JString ''GADDR'') ''1700000000'' ''42'' ''1000'')"
    using searchDomain_record_variant [OF 1, where sim = ?sim and retval = "ScvArm ''vec'' JNull"
        and result = "JArray [JString ''Domain'', JObject ?fd]" and tag = "JString ''Domain''"
        and fs = ?fd and n = "[0xab, 0x01]" and a = "JString ''GADDR''" and sv = "JBigInt 42"
        and sn = 42 and ow = "[0x0f]" and ev = "JBigInt 1700000000" and e = 1700000000
        and cv = "JBigInt 1000" and c = 1000]
    by (simp add: sample_defs js_index_def integer_of_def render_defs)
  have b: "outcome (searchDomain ?gs ?ps)
     = Inr (SubDomain ''ab01'' ''0f'' (JString ''GADDR'') ''42'')"
    using searchDomain_record_variant [OF 2, where sim = ?sim and retval = "ScvArm ''vec'' JNull"
        and result = "JArray [JString ''SubDomain'', JObject ?fs]"
        and tag = "JString ''SubDomain''" and fs = ?fs and n = "[0xab, 0x01]"
        and a = "JString ''GADDR''" and sv = "JNumber 42" and sn = 42 and pa = "[0x0f]"]
    by (simp add: sample_defs js_index_def integer_of_def render_defs)
  from a b show ?thesis by (rule conjI)
qed

text \<open>
  Claim C4. Whenever the simulated call yields an absent decoded result (\<open>null\<close> or
  \<open>undefined\<close>), \<open>searchDomain\<close> fails with \<open>Domain404Error\<close> and \<open>getDomainData\<close> fails with
  \<open>DomainData404Error\<close>.
\<close>

theorem absent_result_is_not_found:
  "(SimulateTransaction tx \<in> set (rpc_calls (searchDomain g p))
      \<and> simulateTransaction (rpc g) tx = Inr sim \<and> \<not> isSimulationError sim
      \<and> result_retval sim = Inr retval
      \<and> scValToNative (stellarSDK g) retval \<in> {JNull, JUndefined}
    \<longrightarrow> outcome (searchDomain g p) = Inl Domain404Error)
   \<and> (SimulateTransaction tx' \<in> set (rpc_calls (getDomainData g n k))
      \<and> simulateTransaction (rpc g) tx' = Inr sim' \<and> \<not> isSimulationError sim'
      \<and> result_retval sim' = Inr retval'
      \<and> scValToNative (stellarSDK g) retval' \<in> {JNull, JUndefined}
    \<longrightarrow> outcome (getDomainData g n k) = Inl DomainData404Error)"
proof (intro conjI impI)
  assume h: "SimulateTransaction tx \<in> set (rpc_calls (searchDomain g p))
      \<and> simulateTransaction (rpc g) tx = Inr sim \<and> \<not> isSimulationError sim
      \<and> result_retval sim = Inr retval
      \<and> scValToNative (stellarSDK g) retval \<in> {JNull, JUndefined}"
  then have "outcome (searchDomain g p)
           = record_of_result (Buffer_toString (stellarSDK g)) (scValToNative (stellarSDK g) retval)"
    by (intro searchDomain_decoded [of tx g p sim retval]) simp_all
  moreover from h have "\<not> truthy (scValToNative (stellarSDK g) retval)" by auto
  ultimately show "outcome (searchDomain g p) = Inl Domain404Error"
    by (simp add: record_of_result_falsy)
next
  assume h: "SimulateTransaction tx' \<in> set (rpc_calls (getDomainData g n k))
      \<and> simulateTransaction (rpc g) tx' = Inr sim' \<and> \<not> isSimulationError sim'
      \<and> result_retval sim' = Inr retval'
      \<and> scValToNative (stellarSDK g) retval' \<in> {JNull, JUndefined}"
  then have "outcome (getDomainData g n k) =
           (if \<not> truthy (scValToNative (stellarSDK g) retval') then Inl DomainData404Error
            else Inr (scValToNative (stellarSDK g) retval'))"
    by (intro getDomainData_decoded [of tx' g n k sim' retval']) simp_all
  moreover from h have "\<not> truthy (scValToNative (stellarSDK g) retval')" by auto
  ultimately show "outcome (getDomainData g n k) = Inl DomainData404Error"
    by simp
qed

theorem absent_result_is_not_found_witness:
  "outcome (searchDomain (sample_global (Some ''CVAULTS'') (Some ''CDB'') JNull
                        (SimulationSuccess (Some (ScvArm ''void'' JNull))))
          \<lparr>domain = ''example'', subDomain = None\<rparr>) = Inl Domain404Error
   \<and> outcome (getDomainData (sample_global (Some ''CVAULTS'') (Some ''CDB'') JNull
                        (SimulationSuccess (Some (ScvArm ''void'' JNull))))
          ''ab01'' ''website'') = Inl DomainData404Error"
proof -
  let ?sim = "SimulationSuccess (Some (ScvArm ''void'' JNull))"
  let ?g = "sample_global (Some ''CVAULTS'') (Some ''CDB'') JNull ?sim"
  let ?p = "\<lparr>domain = ''example'', subDomain = None\<rparr>"
  let ?tx = "sample_transaction ''GSIM'' ''CVAULTS'' ''record'' [record_key ?p]"
  let ?tx' = "sample_transaction ''GSIM'' ''CDB'' ''get''
                [ScvBytes (JBuffer (Buffer_from_hex ''ab01'')), ScvSymbol (JString ''website'')]"
  have 1: "SimulateTransaction ?tx \<in> set (rpc_calls (searchDomain ?g ?p))
      \<and> simulateTransaction (rpc ?g) ?tx = Inr ?sim \<and> \<not> isSimulationError ?sim
      \<and> result_retval ?sim = Inr (ScvArm ''void'' JNull)
      \<and> scValToNative (stellarSDK ?g) (ScvArm ''void'' JNull) \<in> {JNull, JUndefined}"
    by (simp add: searchDomain_def sample_defs)
  have 2: "SimulateTransaction ?tx' \<in> set (rpc_calls (getDomainData ?g ''ab01'' ''website''))
      \<and> simulateTransaction (rpc ?g) ?tx' = Inr ?sim \<and> \<not> isSimulationError ?sim
      \<and> result_retval ?sim = Inr (ScvArm ''void'' JNull)
      \<and> scValToNative (stellarSDK ?g) (ScvArm ''void'' JNull) \<in> {JNull, JUndefined}"
    by (simp add: getDomainData_def sample_defs)
  from 1 2 show ?thesis
    using absent_result_is_not_found
      [of ?tx ?g ?p ?sim "ScvArm ''void'' JNull" ?tx' "''ab01''" "''website''" ?sim
          "ScvArm ''void'' JNull"]
    by blast
qed

text \<open>
  Claim C5. When the contract identifier an operation needs is absent from the
  configuration, the operation fails before any RPC call: \<open>searchDomain\<close> when the vaults
  contract identifier is missing; \<open>getDomainData\<close>, \<open>setDomainData\<close> and \<open>removeDomainData\<close>
  when the key/value database contract identifier is missing. The list of RPC calls is
  empty: no account was fetched and nothing was simulated.
\<close>

theorem missing_contract_id_fails_before_rpc:
  "(vaultsContractId g = None
    \<longrightarrow> searchDomain g p = ([], Inl (Error ''Vault's contract id was not provided'')))
   \<and> (valuesDatabaseContractId g = None
    \<longrightarrow> getDomainData g n k = ([], Inl (Error ''KeyValue Database contract id was not provided''))
      \<and> setDomainData g n k v s
          = ([], Inl (Error ''KeyValue Database contract id was not provided''))
      \<and> removeDomainData g n k s
          = ([], Inl (Error ''KeyValue Database contract id was not provided'')))"
  by (simp add: searchDomain_def getDomainData_def setDomainData_def removeDomainData_def)

theorem missing_contract_id_fails_before_rpc_witness:
  "searchDomain (sample_global None None JNull (SimulationSuccess None))
      \<lparr>domain = ''example'', subDomain = None\<rparr>
     = ([], Inl (Error ''Vault's contract id was not provided''))
   \<and> getDomainData (sample_global None None JNull (SimulationSuccess None)) ''ab01'' ''website''
     = ([], Inl (Error ''KeyValue Database contract id was not provided''))
   \<and> setDomainData (sample_global None None JNull (SimulationSuccess None)) ''ab01'' ''website''
        (''String'', JString ''https://example.org'') ''GSOURCE''
     = ([], Inl (Error ''KeyValue Database contract id was not provided''))
   \<and> removeDomainData (sample_global None None JNull (SimulationSuccess None)) ''ab01''
        ''website'' ''GSOURCE''
     = ([], Inl (Error ''KeyValue Database contract id was not provided''))"
proof -
  let ?g = "sample_global None None JNull (SimulationSuccess None)"
  have "vaultsContractId ?g = None" "valuesDatabaseContractId ?g = None"
    by (simp_all add: sample_global_def)
  then show ?thesis
    using missing_contract_id_fails_before_rpc
      [of ?g "\<lparr>domain = ''example'', subDomain = None\<rparr>" "''ab01''" "''website''"
          "(''String'', JString ''https://example.org'')" "''GSOURCE''"]
    by blast
qed

text \<open>
  Claim C6, as stated, in a configuration without the key/value database contract
  identifier: the discriminant \<open>Foo\<close> is outside \<open>Bytes\<close>, \<open>Number\<close>, \<open>String\<close>, and
  \<open>setDomainData\<close> fails with the configuration error, not with
  \<open>DomainDataUnsupportedValueType\<close>.
\<close>

theorem setDomainData_unsupported_counterexample:
  "setDomainData (sample_global (Some ''CVAULTS'') None JNull (SimulationSuccess None))
     ''ab01'' ''website'' (''Foo'', JString ''bar'') ''GSOURCE''
     = ([], Inl (Error ''KeyValue Database contract id was not provided''))
   \<and> outcome (setDomainData (sample_global (Some ''CVAULTS'') None JNull (SimulationSuccess None))
          ''ab01'' ''website'' (''Foo'', JString ''bar'') ''GSOURCE'')
       \<noteq> Inl DomainDataUnsupportedValueType
   \<and> fst (''Foo'', JString ''bar'') \<notin> {''Bytes'', ''Number'', ''String''}"
  by (simp add: setDomainData_def sample_global_def)

text \<open>
  Claim C6, amended. For every value whose discriminant is outside \<open>Bytes\<close>, \<open>Number\<close>,
  \<open>String\<close>, \<open>setDomainData\<close> makes no RPC call, so no simulation is attempted; and when the
  key/value database contract identifier is configured and the SDK builds the contract
  handle from it, the operation fails with \<open>DomainDataUnsupportedValueType\<close>.
\<close>

theorem setDomainData_unsupported:
  assumes "fst v \<notin> {''Bytes'', ''Number'', ''String''}"
  shows "rpc_calls (setDomainData g n k v s) = []
    \<and> (valuesDatabaseContractId g = Some db \<and> db \<noteq> []
         \<and> new_Contract (stellarSDK g) db = Inr c
       \<longrightarrow> setDomainData g n k v s = ([], Inl DomainDataUnsupportedValueType))"
proof -
  from assms have "encode_value sdk v = Inl DomainDataUnsupportedValueType" for sdk
    by (simp add: encode_value_def)
  then show ?thesis
    by (auto simp: setDomainData_def Let_def split: option.splits sum.splits)
qed

theorem setDomainData_unsupported_witness:
  "setDomainData (sample_global None (Some ''CDB'') JNull (SimulationSuccess None))
     ''ab01'' ''website'' (''Foo'', JString ''bar'') ''GSOURCE''
     = ([], Inl DomainDataUnsupportedValueType)"
proof -
  let ?g = "sample_global None (Some ''CDB'') JNull (SimulationSuccess None)"
  have 1: "fst (''Foo'', JString ''bar'') \<notin> {''Bytes'', ''Number'', ''String''}" by simp
  have 2: "valuesDatabaseContractId ?g = Some ''CDB'' \<and> ''CDB'' \<noteq> []
         \<and> new_Contract (stellarSDK ?g) ''CDB'' = Inr (Contract ''CDB'')"
    by (simp add: sample_global_def sample_sdk_def)
  from setDomainData_unsupported [OF 1, of ?g "''ab01''" "''website''" "''GSOURCE''" "''CDB''"
         "Contract ''CDB''"] 2
  show ?thesis by blast
qed

text \<open>
  Claim C7. In each of the four operations that simulate a transaction, when the
  simulation the operation has run reports an error, the operation fails with an \<open>Error\<close>
  whose message is the simulation's error message, unchanged.
\<close>

theorem simulation_error_is_surfaced:
  "(SimulateTransaction tx1 \<in> set (rpc_calls (searchDomain g p))
      \<and> simulateTransaction (rpc g) tx1 = Inr (SimulationError msg1)
    \<longrightarrow> outcome (searchDomain g p) = Inl (Error msg1))
   \<and> (SimulateTransaction tx2 \<in> set (rpc_calls (getDomainData g n k))
      \<and> simulateTransaction (rpc g) tx2 = Inr (SimulationError msg2)
    \<longrightarrow> outcome (getDomainData g n k) = Inl (Error msg2))
   \<and> (SimulateTransaction tx3 \<in> set (rpc_calls (setDomainData g n k v s))
      \<and> simulateTransaction (rpc g) tx3 = Inr (SimulationError msg3)
    \<longrightarrow> outcome (setDomainData g n k v s) = Inl (Error msg3))
   \<and> (SimulateTransaction tx4 \<in> set (rpc_calls (removeDomainData g n k s))
      \<and> simulateTransaction (rpc g) tx4 = Inr (SimulationError msg4)
    \<longrightarrow> outcome (removeDomainData g n k s) = Inl (Error msg4))"
proof (intro conjI impI)
  assume "SimulateTransaction tx1 \<in> set (rpc_calls (searchDomain g p))
      \<and> simulateTransaction (rpc g) tx1 = Inr (SimulationError msg1)"
  then show "outcome (searchDomain g p) = Inl (Error msg1)"
    using searchDomain_simulated(1) [of tx1 g p] by simp
next
  assume "SimulateTransaction tx2 \<in> set (rpc_calls (getDomainData g n k))
      \<and> simulateTransaction (rpc g) tx2 = Inr (SimulationError msg2)"
  then show "outcome (getDomainData g n k) = Inl (Error msg2)"
    using getDomainData_simulated [of tx2 g n k] by simp
next
  assume "SimulateTransaction tx3 \<in> set (rpc_calls (setDomainData g n k v s))
      \<and> simulateTransaction (rpc g) tx3 = Inr (SimulationError msg3)"
  then show "outcome (setDomainData g n k v s) = Inl (Error msg3)"
    using setDomainData_simulated [of tx3 g n k v s] by simp
next
  assume "SimulateTransaction tx4 \<in> set (rpc_calls (removeDomainData g n k s))
      \<and> simulateTransaction (rpc g) tx4 = Inr (SimulationError msg4)"
  then show "outcome (removeDomainData g n k s) = Inl (Error msg4)"
    using removeDomainData_simulated [of tx4 g n k s] by simp
qed

theorem simulation_error_is_surfaced_witness:
  "outcome (searchDomain (sample_global (Some ''CVAULTS'') (Some ''CDB'') JNull
                        (SimulationError ''host invocation failed''))
          \<lparr>domain = ''example'', subDomain = None\<rparr>) = Inl (Error ''host invocation failed'')
   \<and> outcome (getDomainData (sample_global (Some ''CVAULTS'') (Some ''CDB'') JNull
                        (SimulationError ''host invocation failed''))
          ''ab01'' ''website'') = Inl (Error ''host invocation failed'')
   \<and> outcome (setDomainData (sample_global (Some ''CVAULTS'') (Some ''CDB'') JNull
                        (SimulationError ''host invocation failed''))
          ''ab01'' ''website'' (''String'', JString ''x'') ''GSOURCE'')
       = Inl (Error ''host invocation failed'')
   \<and> outcome (removeDomainData (sample_global (Some ''CVAULTS'') (Some ''CDB'') JNull
                        (SimulationError ''host invocation failed''))
          ''ab01'' ''website'' ''GSOURCE'') = Inl (Error ''host invocation failed'')"
proof -
  let ?sim = "SimulationError ''host invocation failed''"
  let ?g = "sample_global (Some ''CVAULTS'') (Some ''CDB'') JNull ?sim"
  let ?p = "\<lparr>domain = ''example'', subDomain = None\<rparr>"
  let ?nb = "ScvBytes (JBuffer (Buffer_from_hex ''ab01''))"
  let ?ks = "ScvSymbol (JString ''website'')"
  let ?tx1 = "sample_transaction ''GSIM'' ''CVAULTS'' ''record'' [record_key ?p]"
  let ?tx2 = "sample_transaction ''GSIM'' ''CDB'' ''get'' [?nb, ?ks]"
  let ?tx3 = "sample_transaction ''GSOURCE'' ''CDB'' ''set''
                [?nb, ?ks, ScvVec [ScvSymbol (JString ''String''), ScvString (JString ''x'')]]"
  let ?tx4 = "sample_transaction ''GSOURCE'' ''CDB'' ''remove'' [?nb, ?ks]"
  have 1: "SimulateTransaction ?tx1 \<in> set (rpc_calls (searchDomain ?g ?p))
      \<and> simulateTransaction (rpc ?g) ?tx1 = Inr ?sim"
    by (simp add: searchDomain_def sample_defs)
  have 2: "SimulateTransaction ?tx2 \<in> set (rpc_calls (getDomainData ?g ''ab01'' ''website''))
      \<and> simulateTransaction (rpc ?g) ?tx2 = Inr ?sim"
    by (simp add: getDomainData_def sample_defs)
  have 3: "SimulateTransaction ?tx3
        \<in> set (rpc_calls (setDomainData ?g ''ab01'' ''website'' (''String'', JString ''x'') ''GSOURCE''))
      \<and> simulateTransaction (rpc ?g) ?tx3 = Inr ?sim"
    by (simp add: setDomainData_def encode_value_def sample_defs)
  have 4: "SimulateTransaction ?tx4
        \<in> set (rpc_calls (removeDomainData ?g ''ab01'' ''website'' ''GSOURCE''))
      \<and> simulateTransaction (rpc ?g) ?tx4 = Inr ?sim"
    by (simp add: removeDomainData_def sample_defs)
  from 1 2 3 4 show ?thesis
    using simulation_error_is_surfaced
      [of ?tx1 ?g ?p "''host invocation failed''" ?tx2 "''ab01''" "''website''"
          "''host invocation failed''" ?tx3 "(''String'', JString ''x'')" "''GSOURCE''"
          "''host invocation failed''" ?tx4 "''host invocation failed''"]
    by blast
qed

text \<open>
  Claim C8, as stated, with the sub-domain argument present and equal to the empty
  string: the transaction \<open>searchDomain\<close> simulates carries the symbol \<open>Record\<close>, not
  \<open>SubRecord\<close>.
\<close>

theorem record_key_empty_subDomain_counterexample:
  "rpc_calls (searchDomain (sample_global (Some ''CVAULTS'') None JNull (SimulationSuccess None))
          \<lparr>domain = ''example'', subDomain = Some []\<rparr>)
     = [GetAccount ''GSIM'',
        SimulateTransaction (sample_transaction ''GSIM'' ''CVAULTS'' ''record''
          [ScvVec [ScvSymbol (JString ''Record''),
                   ScvBytes (JBuffer (Buffer_from_hex
                     (parseDomain \<lparr>domain = ''example'', subDomain = Some []\<rparr>)))]])]
   \<and> SimulateTransaction (sample_transaction ''GSIM'' ''CVAULTS'' ''record''
          [ScvVec [ScvSymbol (JString (RecordKey_symbol SubRecord)),
                   ScvBytes (JBuffer (Buffer_from_hex
                     (parseDomain \<lparr>domain = ''example'', subDomain = Some []\<rparr>)))]])
       \<notin> set (rpc_calls (searchDomain
                       (sample_global (Some ''CVAULTS'') None JNull (SimulationSuccess None))
                       \<lparr>domain = ''example'', subDomain = Some []\<rparr>))"
  by (simp add: searchDomain_def sample_defs record_key_eq truthy_string_def)

text \<open>
  Claim C8, amended. Every transaction \<open>searchDomain\<close> simulates invokes \<open>record\<close> with one
  argument, a vector of two elements: the symbol of \<open>RecordKey.SubRecord\<close> when the
  sub-domain argument is a non-empty string, the symbol of \<open>RecordKey.Record\<close> when it is
  absent or the empty string; and the bytes of the derived node, that is the bytes whose
  hexadecimal text is the result of \<open>parseDomain\<close>.
\<close>

theorem searchDomain_record_key:
  assumes "SimulateTransaction tx \<in> set (rpc_calls (searchDomain g p))"
  shows "\<exists>c bytes. tx_operations tx
           = [Call c ''record''
                [ScvVec [ScvSymbol (JString (RecordKey_symbol
                           (case subDomain p of
                              None \<Rightarrow> Record
                            | Some s \<Rightarrow> if s = [] then Record else SubRecord))),
                         ScvBytes (JBuffer bytes)]]]
         \<and> hex_encode bytes = parseDomain p"
proof -
  from searchDomain_simulated(2) [OF assms]
  obtain c where c: "tx_operations tx = [Call c ''record'' [record_key p]]" by blast
  obtain d sd where p: "p = \<lparr>domain = d, subDomain = sd\<rparr>" by (cases p) simp
  have "\<exists>bytes. parseDomain p = hex_encode bytes"
  proof (cases sd)
    case None
    with p show ?thesis using parseDomain_None [of d] by blast
  next
    case (Some s)
    show ?thesis
    proof (cases "s = []")
      case True
      with p Some show ?thesis using parseDomain_empty [of d] by blast
    next
      case False
      with p Some show ?thesis using parseDomain_Some [of s d] by blast
    qed
  qed
  then obtain bytes where b: "parseDomain p = hex_encode bytes" by blast
  have "record_key p =
          ScvVec [ScvSymbol (JString (RecordKey_symbol
                    (case subDomain p of
                       None \<Rightarrow> Record
                     | Some s \<Rightarrow> if s = [] then Record else SubRecord))),
                  ScvBytes (JBuffer bytes)]"
    unfolding record_key_eq b
    by (simp add: Buffer_from_hex_encode truthy_string_def split: option.splits)
  with b c show ?thesis by simp
qed

theorem searchDomain_record_key_witness:
  "\<exists>c bytes. tx_operations (sample_transaction ''GSIM'' ''CVAULTS'' ''record''
                 [record_key \<lparr>domain = ''example'', subDomain = Some ''www''\<rparr>])
           = [Call c ''record''
                [ScvVec [ScvSymbol (JString ''SubRecord''), ScvBytes (JBuffer bytes)]]]
         \<and> hex_encode bytes = parseDomain \<lparr>domain = ''example'', subDomain = Some ''www''\<rparr>"
proof -
  let ?g = "sample_global (Some ''CVAULTS'') None JNull (SimulationSuccess None)"
  let ?p = "\<lparr>domain = ''example'', subDomain = Some ''www''\<rparr>"
  let ?tx = "sample_transaction ''GSIM'' ''CVAULTS'' ''record'' [record_key ?p]"
  have "SimulateTransaction ?tx \<in> set (rpc_calls (searchDomain ?g ?p))"
    by (simp add: searchDomain_def sample_defs)
  from searchDomain_record_key [OF this] show ?thesis by simp
qed

text \<open>
  Claim C9. An empty-string sub-domain is treated exactly as an absent one. For every
  domain \<open>d\<close>, \<open>parseDomain\<close> gives the same node for both, the root digest with no sub-domain
  hashing. \<open>searchDomain\<close> called with the sub-domain \<open>""\<close> builds its call argument with
  \<open>RecordKey.Record\<close> and the root digest: every transaction it simulates carries that
  argument, and when the vaults contract identifier is configured, the SDK builds the
  contract handle and the account is found, its RPC calls are the account fetch followed
  by the simulation of that transaction. The whole operation makes the same calls with the
  same outcome as without a sub-domain.
\<close>

theorem empty_subDomain_is_absent:
  "parseDomain \<lparr>domain = d, subDomain = Some []\<rparr> = parseDomain \<lparr>domain = d, subDomain = None\<rparr>
   \<and> parseDomain \<lparr>domain = d, subDomain = Some []\<rparr>
       = hex_encode (keccak256 (keccak256 (utf8 ''xlm'') @ keccak256 (utf8 d)))
   \<and> record_key \<lparr>domain = d, subDomain = Some []\<rparr>
       = ScvVec [ScvSymbol (JString (RecordKey_symbol Record)),
                 ScvBytes (JBuffer (keccak256 (keccak256 (utf8 ''xlm'') @ keccak256 (utf8 d))))]
   \<and> searchDomain g \<lparr>domain = d, subDomain = Some []\<rparr>
       = searchDomain g \<lparr>domain = d, subDomain = None\<rparr>
   \<and> (SimulateTransaction tx \<in> set (rpc_calls (searchDomain g \<lparr>domain = d, subDomain = Some []\<rparr>))
       \<longrightarrow> (\<exists>c'. tx_operations tx
              = [Call c' ''record''
                   [ScvVec [ScvSymbol (JString (RecordKey_symbol Record)),
                            ScvBytes (JBuffer (keccak256
                              (keccak256 (utf8 ''xlm'') @ keccak256 (utf8 d))))]]]))
   \<and> (vaultsContractId g = Some vaults \<and> vaults \<noteq> []
         \<and> new_Contract (stellarSDK g) vaults = Inr c
         \<and> getAccount (rpc g) (simulationAccount g) = Inr acc
       \<longrightarrow> rpc_calls (searchDomain g \<lparr>domain = d, subDomain = Some []\<rparr>)
            = [GetAccount (simulationAccount g),
               SimulateTransaction
                 \<lparr>tx_source = acc, tx_networkPassphrase = network g, tx_fee = defaultFee g,
                  tx_timeout = (case defaultTimeout g of None \<Rightarrow> 0 | Some t \<Rightarrow> t),
                  tx_operations =
                    [Call c ''record''
                       [ScvVec [ScvSymbol (JString (RecordKey_symbol Record)),
                                ScvBytes (JBuffer (keccak256
                                  (keccak256 (utf8 ''xlm'') @ keccak256 (utf8 d))))]]]\<rparr>])"
proof -
  let ?e = "\<lparr>domain = d, subDomain = Some []\<rparr>"
  let ?root = "keccak256 (keccak256 (utf8 ''xlm'') @ keccak256 (utf8 d))"
  let ?key = "ScvVec [ScvSymbol (JString (RecordKey_symbol Record)), ScvBytes (JBuffer ?root)]"
  have pd: "parseDomain ?e = hex_encode ?root"
    by (rule parseDomain_empty)
  have rk: "record_key ?e = ?key"
    by (simp add: record_key_eq truthy_string_def pd Buffer_from_hex_encode)
  have rk': "record_key ?e = record_key \<lparr>domain = d, subDomain = None\<rparr>"
    by (simp add: record_key_eq truthy_string_def parseDomain_None parseDomain_empty)
  have same: "searchDomain g ?e = searchDomain g \<lparr>domain = d, subDomain = None\<rparr>"
    unfolding searchDomain_def rk' by (rule refl)
  have sim: "\<exists>c'. tx_operations tx = [Call c' ''record'' [?key]]"
    if "SimulateTransaction tx \<in> set (rpc_calls (searchDomain g ?e))"
    using searchDomain_simulated(2) [OF that] unfolding rk .
  have calls: "rpc_calls (searchDomain g ?e)
            = [GetAccount (simulationAccount g),
               SimulateTransaction
                 \<lparr>tx_source = acc, tx_networkPassphrase = network g, tx_fee = defaultFee g,
                  tx_timeout = (case defaultTimeout g of None \<Rightarrow> 0 | Some t \<Rightarrow> t),
                  tx_operations = [Call c ''record'' [?key]]\<rparr>]"
    if "vaultsContractId g = Some vaults \<and> vaults \<noteq> []
         \<and> new_Contract (stellarSDK g) vaults = Inr c
         \<and> getAccount (rpc g) (simulationAccount g) = Inr acc"
    using that unfolding searchDomain_def rk
    by (simp add: Let_def build_transaction_def timeout_or_zero_def
             split: sum.splits option.splits)
  from pd rk same sim calls show ?thesis
    by (simp add: parseDomain_None)
qed

theorem empty_subDomain_is_absent_witness:
  "rpc_calls (searchDomain
        (sample_global (Some ''CVAULTS'') None JNull (SimulationSuccess None))
        \<lparr>domain = [], subDomain = Some []\<rparr>)
     = [GetAccount ''GSIM'',
        SimulateTransaction (sample_transaction ''GSIM'' ''CVAULTS'' ''record''
          [ScvVec [ScvSymbol (JString ''Record''),
                   ScvBytes (JBuffer
    [0x54, 0x74, 0x69, 0xf0, 0xc4, 0x2d, 0x14, 0x19, 0x43, 0x99, 0xc8, 0x72, 0x86, 0x96, 0x20, 0x86,
     0x27, 0xe8, 0x84, 0x96, 0x76, 0x0d, 0xe2, 0x8a, 0xa3, 0xd6, 0xbf, 0x33, 0x1a, 0xd1, 0x5c, 0x38])]])]"
proof -
  let ?g = "sample_global (Some ''CVAULTS'') None JNull (SimulationSuccess None)"
  have root: "keccak256 (keccak256 (utf8 ''xlm'') @ keccak256 (utf8 [])) =
    [0x54, 0x74, 0x69, 0xf0, 0xc4, 0x2d, 0x14, 0x19, 0x43, 0x99, 0xc8, 0x72, 0x86, 0x96, 0x20, 0x86,
     0x27, 0xe8, 0x84, 0x96, 0x76, 0x0d, 0xe2, 0x8a, 0xa3, 0xd6, 0xbf, 0x33, 0x1a, 0xd1, 0x5c, 0x38]"
    by (simp add: utf8_def keccak256_xlm keccak256_empty keccak256_root)
  have h: "vaultsContractId ?g = Some ''CVAULTS'' \<and> ''CVAULTS'' \<noteq> []
         \<and> new_Contract (stellarSDK ?g) ''CVAULTS'' = Inr (Contract ''CVAULTS'')
         \<and> getAccount (rpc ?g) (simulationAccount ?g) = Inr (Account ''GSIM'' 0)"
    by (simp add: sample_defs)
  from empty_subDomain_is_absent
         [where g = ?g and d = "[]" and vaults = "''CVAULTS''" and c = "Contract ''CVAULTS''"
            and acc = "Account ''GSIM'' 0"]
  have "vaultsContractId ?g = Some ''CVAULTS'' \<and> ''CVAULTS'' \<noteq> []
         \<and> new_Contract (stellarSDK ?g) ''CVAULTS'' = Inr (Contract ''CVAULTS'')
         \<and> getAccount (rpc ?g) (simulationAccount ?g) = Inr (Account ''GSIM'' 0)
       \<longrightarrow> rpc_calls (searchDomain ?g \<lparr>domain = [], subDomain = Some []\<rparr>)
            = [GetAccount (simulationAccount ?g),
               SimulateTransaction
                 \<lparr>tx_source = Account ''GSIM'' 0, tx_networkPassphrase = network ?g,
                  tx_fee = defaultFee ?g,
                  tx_timeout = (case defaultTimeout ?g of None \<Rightarrow> 0 | Some t \<Rightarrow> t),
                  tx_operations =
                    [Call (Contract ''CVAULTS'') ''record''
                       [ScvVec [ScvSymbol (JString (RecordKey_symbol Record)),
                                ScvBytes (JBuffer (keccak256
                                  (keccak256 (utf8 ''xlm'') @ keccak256 (utf8 []))))]]]\<rparr>]"
    by blast
  with h have "rpc_calls (searchDomain ?g \<lparr>domain = [], subDomain = Some []\<rparr>)
            = [GetAccount (simulationAccount ?g),
               SimulateTransaction
                 \<lparr>tx_source = Account ''GSIM'' 0, tx_networkPassphrase = network ?g,
                  tx_fee = defaultFee ?g,
                  tx_timeout = (case defaultTimeout ?g of None \<Rightarrow> 0 | Some t \<Rightarrow> t),
                  tx_operations =
                    [Call (Contract ''CVAULTS'') ''record''
                       [ScvVec [ScvSymbol (JString (RecordKey_symbol Record)),
                                ScvBytes (JBuffer (keccak256
                                  (keccak256 (utf8 ''xlm'') @ keccak256 (utf8 []))))]]]\<rparr>]"
    by (rule mp [rotated])
  then show ?thesis unfolding root by (simp add: sample_defs)
qed

text \<open>
  Claim C10. Absence is detected by the falsiness of the decoded value: for every decoded
  result that is falsy, \<open>searchDomain\<close> fails with \<open>Domain404Error\<close> and \<open>getDomainData\<close> with
  \<open>DomainData404Error\<close>. The number \<open>0\<close>, the bigint \<open>0n\<close>, the empty string and \<open>false\<close> are
  falsy as \<open>null\<close> and \<open>undefined\<close> are, so a present but falsy value has the outcome of an
  absent one.
\<close>

theorem falsy_result_is_not_found:
  "(SimulateTransaction tx \<in> set (rpc_calls (searchDomain g p))
      \<and> simulateTransaction (rpc g) tx = Inr sim \<and> \<not> isSimulationError sim
      \<and> result_retval sim = Inr retval
      \<and> \<not> truthy (scValToNative (stellarSDK g) retval)
    \<longrightarrow> outcome (searchDomain g p) = Inl Domain404Error)
   \<and> (SimulateTransaction tx' \<in> set (rpc_calls (getDomainData g n k))
      \<and> simulateTransaction (rpc g) tx' = Inr sim' \<and> \<not> isSimulationError sim'
      \<and> result_retval sim' = Inr retval'
      \<and> \<not> truthy (scValToNative (stellarSDK g) retval')
    \<longrightarrow> outcome (getDomainData g n k) = Inl DomainData404Error)
   \<and> \<not> truthy (JNumber 0) \<and> \<not> truthy (JBigInt 0) \<and> \<not> truthy (JString [])
   \<and> \<not> truthy (JBool False) \<and> \<not> truthy JNull \<and> \<not> truthy JUndefined"
proof -
  have a: "outcome (searchDomain g p) = Inl Domain404Error"
    if "SimulateTransaction tx \<in> set (rpc_calls (searchDomain g p))
      \<and> simulateTransaction (rpc g) tx = Inr sim \<and> \<not> isSimulationError sim
      \<and> result_retval sim = Inr retval
      \<and> \<not> truthy (scValToNative (stellarSDK g) retval)"
  proof -
    from that
    have "outcome (searchDomain g p)
           = record_of_result (Buffer_toString (stellarSDK g)) (scValToNative (stellarSDK g) retval)"
      by (intro searchDomain_decoded [of tx g p sim retval]) simp_all
    with that show ?thesis by (simp add: record_of_result_falsy)
  qed
  have b: "outcome (getDomainData g n k) = Inl DomainData404Error"
    if "SimulateTransaction tx' \<in> set (rpc_calls (getDomainData g n k))
      \<and> simulateTransaction (rpc g) tx' = Inr sim' \<and> \<not> isSimulationError sim'
      \<and> result_retval sim' = Inr retval'
      \<and> \<not> truthy (scValToNative (stellarSDK g) retval')"
  proof -
    from that
    have "outcome (getDomainData g n k) =
           (if \<not> truthy (scValToNative (stellarSDK g) retval') then Inl DomainData404Error
            else Inr (scValToNative (stellarSDK g) retval'))"
      by (intro getDomainData_decoded [of tx' g n k sim' retval']) simp_all
    with that show ?thesis by simp
  qed
  from a b show ?thesis by simp
qed

theorem falsy_result_is_not_found_witness:
  "outcome (searchDomain (sample_global (Some ''CVAULTS'') (Some ''CDB'') (JNumber 0)
                        (SimulationSuccess (Some (ScvArm ''u32'' (JNumber 0)))))
          \<lparr>domain = ''example'', subDomain = None\<rparr>) = Inl Domain404Error
   \<and> outcome (getDomainData (sample_global (Some ''CVAULTS'') (Some ''CDB'') (JNumber 0)
                        (SimulationSuccess (Some (ScvArm ''u32'' (JNumber 0)))))
          ''ab01'' ''website'') = Inl DomainData404Error"
proof -
  let ?sim = "SimulationSuccess (Some (ScvArm ''u32'' (JNumber 0)))"
  let ?g = "sample_global (Some ''CVAULTS'') (Some ''CDB'') (JNumber 0) ?sim"
  let ?p = "\<lparr>domain = ''example'', subDomain = None\<rparr>"
  let ?tx = "sample_transaction ''GSIM'' ''CVAULTS'' ''record'' [record_key ?p]"
  let ?tx' = "sample_transaction ''GSIM'' ''CDB'' ''get''
                [ScvBytes (JBuffer (Buffer_from_hex ''ab01'')), ScvSymbol (JString ''website'')]"
  have 1: "SimulateTransaction ?tx \<in> set (rpc_calls (searchDomain ?g ?p))
      \<and> simulateTransaction (rpc ?g) ?tx = Inr ?sim \<and> \<not> isSimulationError ?sim
      \<and> result_retval ?sim = Inr (ScvArm ''u32'' (JNumber 0))
      \<and> \<not> truthy (scValToNative (stellarSDK ?g) (ScvArm ''u32'' (JNumber 0)))"
    by (simp add: searchDomain_def sample_defs)
  have 2: "SimulateTransaction ?tx' \<in> set (rpc_calls (getDomainData ?g ''ab01'' ''website''))
      \<and> simulateTransaction (rpc ?g) ?tx' = Inr ?sim \<and> \<not> isSimulationError ?sim
      \<and> result_retval ?sim = Inr (ScvArm ''u32'' (JNumber 0))
      \<and> \<not> truthy (scValToNative (stellarSDK ?g) (ScvArm ''u32'' (JNumber 0)))"
    by (simp add: getDomainData_def sample_defs)
  from 1 2 show ?thesis
    using falsy_result_is_not_found
      [of ?tx ?g ?p ?sim "ScvArm ''u32'' (JNumber 0)" ?tx' "''ab01''" "''website''" ?sim
          "ScvArm ''u32'' (JNumber 0)"]
    by blast
qed

end
